theory Spec2Isabelle
  imports Main
begin

section \<open>Python values and exceptions\<close>

text \<open>
  The values that travel through \<^verbatim>\<open>cal_wrapper.py\<close>: decoded JSON (what
  \<^verbatim>\<open>response.json()\<close> returns) and the dictionaries the tools read with
  \<^verbatim>\<open>.get\<close>. \<open>PNone\<close> is Python's \<^verbatim>\<open>None\<close>, which is also what JSON
  \<^verbatim>\<open>null\<close> decodes to. A dictionary keeps its insertion order; its keys are unique.
  Numbers with a fraction do not occur in the fields the tools read and are left out.
\<close>

datatype pyval =
    PNone
  | PBool bool
  | PInt int
  | PStr string
  | PList "pyval list"
  | PDict "(string \<times> pyval) list"

text \<open>
  The exceptions that occur, each with its message (\<^verbatim>\<open>str(e)\<close>). An exception that
  leaves a function is the \<open>Inl\<close> branch of its result.
\<close>

datatype exn =
    ValueError string
  | UnknownTimeZoneError string
  | OverflowError string
  | TypeError string
  | AttributeError string
  | KeyError string

text \<open>Truthiness, as \<^verbatim>\<open>if x\<close> and \<^verbatim>\<open>not x\<close> test it.\<close>

fun truthy :: "pyval \<Rightarrow> bool" where
  "truthy PNone = False"
| "truthy (PBool b) = b"
| "truthy (PInt n) = (n \<noteq> 0)"
| "truthy (PStr s) = (s \<noteq> [])"
| "truthy (PList xs) = (xs \<noteq> [])"
| "truthy (PDict kvs) = (kvs \<noteq> [])"

text \<open>\<^verbatim>\<open>d.get(key, default)\<close> on a dictionary.\<close>

definition dict_get :: "(string \<times> pyval) list \<Rightarrow> string \<Rightarrow> pyval \<Rightarrow> pyval" where
  "dict_get kvs k dflt = (case map_of kvs k of None \<Rightarrow> dflt | Some v \<Rightarrow> v)"

text \<open>
  \<^verbatim>\<open>x.get(key, default)\<close> on any value: only a dictionary has the method, every other
  value raises \<^verbatim>\<open>AttributeError\<close>.
\<close>

fun py_get :: "pyval \<Rightarrow> string \<Rightarrow> pyval \<Rightarrow> exn + pyval" where
  "py_get (PDict kvs) k dflt = Inr (dict_get kvs k dflt)"
| "py_get _ k dflt = Inl (AttributeError ''object has no attribute get'')"

text \<open>\<^verbatim>\<open>str.lower()\<close> on ASCII letters.\<close>

definition lower_char :: "char \<Rightarrow> char" where
  "lower_char c =
     (let n = (of_char c :: nat) in if 65 \<le> n \<and> n \<le> 90 then char_of (n + 32) else c)"

definition lower :: "string \<Rightarrow> string" where
  "lower s = map lower_char s"

text \<open>\<^verbatim>\<open>x.lower()\<close> on any value: only a string has the method.\<close>

fun py_lower :: "pyval \<Rightarrow> exn + string" where
  "py_lower (PStr s) = Inr (lower s)"
| "py_lower _ = Inl (AttributeError ''object has no attribute lower'')"

text \<open>
  \<^verbatim>\<open>s.replace("Z", "+00:00")\<close>: every occurrence of the character is replaced.
\<close>

fun replace_Z :: "string \<Rightarrow> string" where
  "replace_Z [] = []"
| "replace_Z (c # cs) = (if c = CHR ''Z'' then ''+00:00'' @ replace_Z cs else c # replace_Z cs)"

text \<open>
  The text an f-string inserts for a value. For a string it is the string itself; for the
  other values it is Python's \<^verbatim>\<open>repr\<close>, which is taken as the parameter \<open>repr\<close>.
\<close>

fun py_str :: "(pyval \<Rightarrow> string) \<Rightarrow> pyval \<Rightarrow> string" where
  "py_str repr (PStr s) = s"
| "py_str repr v = repr v"

section \<open>The datetime library\<close>

subsection \<open>Proleptic Gregorian calendar\<close>

definition is_leap :: "int \<Rightarrow> bool" where
  "is_leap y = (y mod 4 = 0 \<and> (y mod 100 \<noteq> 0 \<or> y mod 400 = 0))"

definition days_in_month :: "int \<Rightarrow> int \<Rightarrow> int" where
  "days_in_month y m =
     (if m = 2 then (if is_leap y then 29 else 28)
      else if m = 4 \<or> m = 6 \<or> m = 9 \<or> m = 11 then 30 else 31)"

definition days_before_year :: "int \<Rightarrow> int" where
  "days_before_year y = (let p = y - 1 in p * 365 + p div 4 - p div 100 + p div 400)"

definition DAYS_BEFORE_MONTH :: "int list" where
  "DAYS_BEFORE_MONTH = [0, 0, 31, 59, 90, 120, 151, 181, 212, 243, 273, 304, 334]"

definition DAYS_IN_MONTH :: "int list" where
  "DAYS_IN_MONTH = [0, 31, 28, 31, 30, 31, 30, 31, 31, 30, 31, 30, 31]"

definition days_before_month :: "int \<Rightarrow> int \<Rightarrow> int" where
  "days_before_month y m =
     DAYS_BEFORE_MONTH ! nat m + (if m > 2 \<and> is_leap y then 1 else 0)"

definition ymd2ord :: "int \<Rightarrow> int \<Rightarrow> int \<Rightarrow> int" where
  "ymd2ord y m d = days_before_year y + days_before_month y m + d"

text \<open>The inverse, ordinal to (year, month, day), as the library computes it.\<close>

definition ord2ymd :: "int \<Rightarrow> int \<times> int \<times> int" where
  "ord2ymd ordinal =
     (let n0 = ordinal - 1;
          n400 = n0 div 146097; n1' = n0 mod 146097;
          n100 = n1' div 36524; n2' = n1' mod 36524;
          n4 = n2' div 1461; n3' = n2' mod 1461;
          n1 = n3' div 365; n = n3' mod 365;
          year = n400 * 400 + 1 + n100 * 100 + n4 * 4 + n1
      in if n1 = 4 \<or> n100 = 4 then (year - 1, 12, 31)
         else
           let leapyear = (n1 = 3 \<and> (n4 \<noteq> 24 \<or> n100 = 3));
               month = (n + 50) div 32;
               preceding = DAYS_BEFORE_MONTH ! nat month + (if month > 2 \<and> leapyear then 1 else 0)
           in if preceding > n
              then let month' = month - 1;
                       preceding' = preceding
                         - (DAYS_IN_MONTH ! nat month' + (if month' = 2 \<and> leapyear then 1 else 0))
                   in (year, month', n - preceding' + 1)
              else (year, month, n - preceding + 1))"

subsection \<open>Datetime values\<close>

text \<open>
  A wall-clock reading (the fields year, month, day, hour, minute, second and microsecond
  of a \<^verbatim>\<open>datetime\<close>) is held as the number of microseconds since
  \<^verbatim>\<open>0001-01-01 00:00:00\<close>; the fields are read back from it by \<open>fields_of\<close>.
  A \<^verbatim>\<open>timedelta\<close> is a number of microseconds. A datetime is naive (no \<^verbatim>\<open>tzinfo\<close>)
  or aware; an aware one carries the UTC offset its \<^verbatim>\<open>tzinfo\<close> reports for it.
\<close>

datatype pydatetime =
    Naive int
  | Aware int int

definition US_PER_SECOND :: int where "US_PER_SECOND = 1000000"
definition US_PER_MINUTE :: int where "US_PER_MINUTE = 60000000"
definition US_PER_HOUR :: int where "US_PER_HOUR = 3600000000"
definition US_PER_DAY :: int where "US_PER_DAY = 86400000000"

text \<open>\<^verbatim>\<open>date.max.toordinal()\<close> is 3652059 (9999-12-31).\<close>

definition MAX_ORDINAL :: int where "MAX_ORDINAL = 3652059"

definition in_range :: "int \<Rightarrow> bool" where
  "in_range w = (0 \<le> w \<and> w < MAX_ORDINAL * US_PER_DAY)"

text \<open>
  The constructor \<^verbatim>\<open>datetime(y, m, d, H, M, S, us)\<close>, with its range checks.
\<close>

definition mk_wall :: "int \<Rightarrow> int \<Rightarrow> int \<Rightarrow> int \<Rightarrow> int \<Rightarrow> int \<Rightarrow> int \<Rightarrow> exn + int" where
  "mk_wall y m d H M S us =
     (if \<not> (1 \<le> y \<and> y \<le> 9999) then Inl (ValueError ''year is out of range'')
      else if \<not> (1 \<le> m \<and> m \<le> 12) then Inl (ValueError ''month must be in 1..12'')
      else if \<not> (1 \<le> d \<and> d \<le> days_in_month y m)
        then Inl (ValueError ''day is out of range for month'')
      else if \<not> (0 \<le> H \<and> H \<le> 23) then Inl (ValueError ''hour must be in 0..23'')
      else if \<not> (0 \<le> M \<and> M \<le> 59) then Inl (ValueError ''minute must be in 0..59'')
      else if \<not> (0 \<le> S \<and> S \<le> 59) then Inl (ValueError ''second must be in 0..59'')
      else if \<not> (0 \<le> us \<and> us \<le> 999999)
        then Inl (ValueError ''microsecond must be in 0..999999'')
      else Inr ((ymd2ord y m d - 1) * US_PER_DAY + H * US_PER_HOUR + M * US_PER_MINUTE
                + S * US_PER_SECOND + us))"

record dt_fields =
  year :: int
  month :: int
  day :: int
  hour :: int
  minute :: int
  second :: int
  microsecond :: int

definition fields_of :: "int \<Rightarrow> dt_fields" where
  "fields_of w =
     (let (y, m, d) = ord2ymd (w div US_PER_DAY + 1); r = w mod US_PER_DAY
      in \<lparr> year = y, month = m, day = d,
           hour = r div US_PER_HOUR,
           minute = (r mod US_PER_HOUR) div US_PER_MINUTE,
           second = (r mod US_PER_MINUTE) div US_PER_SECOND,
           microsecond = r mod US_PER_SECOND \<rparr>)"

text \<open>
  \<^verbatim>\<open>dt + timedelta\<close> on the wall-clock reading: a result before
  \<^verbatim>\<open>datetime.min\<close> or after \<^verbatim>\<open>datetime.max\<close> raises \<^verbatim>\<open>OverflowError\<close>.
\<close>

definition wall_add :: "int \<Rightarrow> int \<Rightarrow> exn + int" where
  "wall_add w delta =
     (if in_range (w + delta) then Inr (w + delta)
      else Inl (OverflowError ''date value out of range''))"

text \<open>\<^verbatim>\<open>dt.replace(second=0, microsecond=0)\<close>: the tzinfo is kept.\<close>

definition truncate_wall :: "int \<Rightarrow> int" where
  "truncate_wall w = w - w mod US_PER_MINUTE"

fun replace_second_microsecond :: "pydatetime \<Rightarrow> pydatetime" where
  "replace_second_microsecond (Naive w) = Naive (truncate_wall w)"
| "replace_second_microsecond (Aware w off) = Aware (truncate_wall w) off"

text \<open>
  \<^verbatim>\<open>a == b\<close>: two aware datetimes are equal when they are the same instant, a naive
  and an aware one are never equal.
\<close>

fun dt_eq :: "pydatetime \<Rightarrow> pydatetime \<Rightarrow> bool" where
  "dt_eq (Naive a) (Naive b) = (a = b)"
| "dt_eq (Aware a oa) (Aware b ob) = (a - oa = b - ob)"
| "dt_eq _ _ = False"

text \<open>
  \<^verbatim>\<open>a > b\<close>: comparing a naive with an aware datetime raises \<^verbatim>\<open>TypeError\<close>.
\<close>

fun dt_gt :: "pydatetime \<Rightarrow> pydatetime \<Rightarrow> exn + bool" where
  "dt_gt (Naive a) (Naive b) = Inr (a > b)"
| "dt_gt (Aware a oa) (Aware b ob) = Inr (a - oa > b - ob)"
| "dt_gt _ _ = Inl (TypeError ''can't compare offset-naive and offset-aware datetimes'')"

subsection \<open>Reading digits\<close>

definition digit_val :: "char \<Rightarrow> int option" where
  "digit_val c =
     (let n = (of_char c :: nat) in if 48 \<le> n \<and> n \<le> 57 then Some (int n - 48) else None)"

definition is_digit :: "char \<Rightarrow> bool" where
  "is_digit c = (digit_val c \<noteq> None)"

text \<open>Exactly \<open>k\<close> decimal digits at the head of a string: their value and the rest.\<close>

fun take_digits :: "nat \<Rightarrow> string \<Rightarrow> (int \<times> string) option" where
  "take_digits 0 s = Some (0, s)"
| "take_digits (Suc k) [] = None"
| "take_digits (Suc k) (c # cs) =
     (case digit_val c of
        None \<Rightarrow> None
      | Some d \<Rightarrow>
          (case take_digits k cs of
             None \<Rightarrow> None
           | Some (v, r) \<Rightarrow> Some (d * 10 ^ k + v, r)))"

text \<open>A literal character at the head of a string.\<close>

fun expect_char :: "char \<Rightarrow> string \<Rightarrow> string option" where
  "expect_char c [] = None"
| "expect_char c (x # xs) = (if x = c then Some xs else None)"

subsection \<open>\<^verbatim>\<open>datetime.fromisoformat\<close>\<close>

text \<open>
  The parser of ISO 8601 strings as CPython 3.11 implements it. It works on the UTF-8
  bytes of the string, reads a zero byte wherever it looks past the end, and accepts
  what the following functions accept: calendar dates with or without dashes, week dates,
  any one character as separator, times with or without colons, a fraction after
  \<^verbatim>\<open>.\<close> or \<^verbatim>\<open>,\<close> cut after six digits, and an offset \<^verbatim>\<open>Z\<close> or \<^verbatim>\<open>+HH[[:]MM[[:]SS[.f]]]\<close>.
  A character of a HOL string is a code point below 256. The message of the
  \<^verbatim>\<open>ValueError\<close> is shortened: the library appends the string.
\<close>

definition utf8_char :: "char \<Rightarrow> string" where
  "utf8_char c =
     (let n = (of_char c :: nat)
      in if n < 128 then [c] else [char_of (192 + n div 64), char_of (128 + n mod 64)])"

definition utf8 :: "string \<Rightarrow> string" where
  "utf8 s = concat (map utf8_char s)"

definition NUL :: char where
  "NUL = CHR 0x00"

text \<open>The byte at a position; past the end it is the terminating zero byte.\<close>

definition at :: "string \<Rightarrow> nat \<Rightarrow> char" where
  "at b i = (if i < length b then b ! i else NUL)"

text \<open>
  \<^verbatim>\<open>parse_digits\<close>: exactly \<open>k\<close> decimal digits from position \<open>p\<close>; their value and
  the position behind them.
\<close>

fun parse_digits :: "string \<Rightarrow> nat \<Rightarrow> nat \<Rightarrow> (int \<times> nat) option" where
  "parse_digits b p 0 = Some (0, p)"
| "parse_digits b p (Suc k) =
     (case digit_val (at b p) of
        None \<Rightarrow> None
      | Some d \<Rightarrow>
          (case parse_digits b (Suc p) k of
             None \<Rightarrow> None
           | Some (v, q) \<Rightarrow> Some (d * 10 ^ k + v, q)))"

text \<open>
  \<^verbatim>\<open>_find_isoformat_datetime_separator\<close>: where the date ends, decided from the
  characters at positions 4 and 5 and, for week dates, from what follows.
\<close>

definition find_separator :: "string \<Rightarrow> nat option" where
  "find_separator b =
     (let n = length b
      in if n = 7 then Some 7
         else if at b 4 = CHR ''-'' then
           (if at b 5 = CHR ''W'' then
              (if n < 8 then None
               else if n > 8 \<and> at b 8 = CHR ''-'' then
                 (if n = 9 then None
                  else if n > 10 \<and> is_digit (at b 10) then Some 8
                  else Some 10)
               else Some 8)
            else Some 10)
         else if at b 4 = CHR ''W'' then
           (let idx = 7 + length (takeWhile is_digit (drop 7 b))
            in if idx < 9 then Some idx else if idx mod 2 = 0 then Some 7 else Some 8)
         else Some 8)"

text \<open>
  Week dates. \<^verbatim>\<open>iso_week1_monday\<close> is the ordinal of the Monday that starts week 1;
  week 53 exists in years that start on a Thursday, and in leap years that start on a
  Wednesday. A week date in year 0 never gives a date.
\<close>

definition iso_week1_monday :: "int \<Rightarrow> int" where
  "iso_week1_monday y =
     (let first_day = ymd2ord y 1 1;
          first_weekday = (first_day + 6) mod 7;
          week1_monday = first_day - first_weekday
      in if first_weekday > 3 then week1_monday + 7 else week1_monday)"

definition iso_to_ymd :: "int \<Rightarrow> int \<Rightarrow> int \<Rightarrow> (int \<times> int \<times> int) option" where
  "iso_to_ymd y week d =
     (if y < 1 then None
      else if (week \<le> 0 \<or> week \<ge> 53)
              \<and> \<not> (week = 53
                    \<and> ((ymd2ord y 1 1 + 6) mod 7 = 3
                         \<or> ((ymd2ord y 1 1 + 6) mod 7 = 2 \<and> is_leap y)))
        then None
      else if d \<le> 0 \<or> d \<ge> 8 then None
      else Some (ord2ymd (iso_week1_monday y + (week - 1) * 7 + d - 1)))"

text \<open>
  \<^verbatim>\<open>parse_isoformat_date\<close>, on the bytes before the separator position \<open>sep\<close>. The
  numbers are checked later, by the constructor.
\<close>

definition parse_week_date :: "string \<Rightarrow> nat \<Rightarrow> int \<Rightarrow> bool \<Rightarrow> nat \<Rightarrow> (int \<times> int \<times> int) option" where
  "parse_week_date b sep y uses_separator p =
     (case parse_digits b p 2 of
        None \<Rightarrow> None
      | Some (week, p1) \<Rightarrow>
          if p1 < sep then
            (if uses_separator \<and> at b p1 \<noteq> CHR ''-'' then None
             else
               (case parse_digits b (if uses_separator then p1 + 1 else p1) 1 of
                  None \<Rightarrow> None
                | Some (d, p2) \<Rightarrow> iso_to_ymd y week d))
          else iso_to_ymd y week 1)"

definition parse_isoformat_date :: "string \<Rightarrow> nat \<Rightarrow> (int \<times> int \<times> int) option" where
  "parse_isoformat_date b sep =
     (case parse_digits b 0 4 of
        None \<Rightarrow> None
      | Some (y, p0) \<Rightarrow>
          let uses_separator = (at b p0 = CHR ''-'');
              p = (if uses_separator then p0 + 1 else p0)
          in if at b p = CHR ''W'' then parse_week_date b sep y uses_separator (p + 1)
             else
               (case parse_digits b p 2 of
                  None \<Rightarrow> None
                | Some (m, p1) \<Rightarrow>
                    if uses_separator \<and> at b p1 \<noteq> CHR ''-'' then None
                    else
                      (case parse_digits b (if uses_separator then p1 + 1 else p1) 2 of
                         None \<Rightarrow> None
                       | Some (d, p2) \<Rightarrow> Some (y, m, d))))"

text \<open>
  \<^verbatim>\<open>parse_hh_mm_ss_ff\<close> reads hour, minute and second between a start position and
  \<open>p_end\<close>, then a fraction. Its result is the flag "the string does not end here" and
  the four numbers. The flag is looked up in the whole string, not only up to \<open>p_end\<close>.

  The fraction: at most six digits are read, the rest of the digits is skipped.
\<close>

definition component :: "int list \<Rightarrow> nat \<Rightarrow> int" where
  "component vals i = (if i < length vals then vals ! i else 0)"

definition parse_fraction ::
  "string \<Rightarrow> nat \<Rightarrow> nat \<Rightarrow> int list \<Rightarrow> (bool \<times> int \<times> int \<times> int \<times> int) option" where
  "parse_fraction b p p_end vals =
     (let to_parse = min (p_end - p) 6
      in case parse_digits b p to_parse of
           None \<Rightarrow> None
         | Some (us, p1) \<Rightarrow>
             let p2 = p1 + length (takeWhile is_digit (drop p1 b))
             in Some (at b p2 \<noteq> NUL,
                      component vals 0, component vals 1, component vals 2,
                      us * 10 ^ (6 - to_parse)))"

text \<open>
  What follows a component that ends at \<open>p1\<close>: the end of the part (with the flag),
  the next component at a position, the fraction at a position, or a malformed separator.
  \<open>has_separator\<close> says whether a colon followed the hour.
\<close>

datatype after = Stop bool | Continue nat | Break nat | Malformed

definition after_component :: "string \<Rightarrow> nat \<Rightarrow> nat \<Rightarrow> bool \<Rightarrow> after" where
  "after_component b p_end p1 has_separator =
     (let c = at b p1
      in if p1 + 1 \<ge> p_end then Stop (c \<noteq> NUL)
         else if has_separator \<and> c = CHR '':'' then Continue (p1 + 1)
         else if c = CHR ''.'' \<or> c = CHR '','' then Break (p1 + 1)
         else if \<not> has_separator then Continue p1
         else Malformed)"

text \<open>
  The loop over the three components; \<open>k\<close> counts the components still to read and
  \<open>vals\<close> holds the ones read. After the third component the fraction follows.
\<close>

fun hms_loop ::
  "string \<Rightarrow> nat \<Rightarrow> nat \<Rightarrow> nat \<Rightarrow> bool \<Rightarrow> int list
     \<Rightarrow> (bool \<times> int \<times> int \<times> int \<times> int) option" where
  "hms_loop b p_end 0 p has_separator vals = parse_fraction b p p_end vals"
| "hms_loop b p_end (Suc k) p has_separator vals =
     (case parse_digits b p 2 of
        None \<Rightarrow> None
      | Some (v, p1) \<Rightarrow>
          let hs = (if vals = [] then at b p1 = CHR '':'' else has_separator)
          in (case after_component b p_end p1 hs of
                Malformed \<Rightarrow> None
              | Stop rv \<Rightarrow>
                  Some (rv, component (vals @ [v]) 0, component (vals @ [v]) 1,
                        component (vals @ [v]) 2, 0)
              | Break q \<Rightarrow> parse_fraction b q p_end (vals @ [v])
              | Continue q \<Rightarrow> hms_loop b p_end k q hs (vals @ [v])))"

definition parse_hh_mm_ss_ff ::
  "string \<Rightarrow> nat \<Rightarrow> nat \<Rightarrow> (bool \<times> int \<times> int \<times> int \<times> int) option" where
  "parse_hh_mm_ss_ff b start p_end = hms_loop b p_end 3 start True []"

definition is_tz_char :: "char \<Rightarrow> bool" where
  "is_tz_char c = (c = CHR ''+'' \<or> c = CHR ''-'' \<or> c = CHR ''Z'')"

text \<open>
  The position of the first \<^verbatim>\<open>Z\<close>, \<^verbatim>\<open>+\<close> or \<^verbatim>\<open>-\<close> of the time part, the end of
  the string when there is none.
\<close>

definition find_tz :: "string \<Rightarrow> nat \<Rightarrow> nat" where
  "find_tz b start =
     (if start \<ge> length b then start + 1
      else start + length (takeWhile (\<lambda>c. \<not> is_tz_char c) (drop start b)))"

text \<open>
  \<^verbatim>\<open>parse_isoformat_time\<close>: the four numbers of the time and the offset in
  microseconds, \<open>None\<close> for a string without offset. An offset of zero whole seconds is
  UTC, whatever its fraction.
\<close>

definition parse_isoformat_time ::
  "string \<Rightarrow> nat \<Rightarrow> (int \<times> int \<times> int \<times> int \<times> int option) option" where
  "parse_isoformat_time b start =
     (let tzpos = find_tz b start
      in case parse_hh_mm_ss_ff b start tzpos of
           None \<Rightarrow> None
         | Some (rv, H, M, S, us) \<Rightarrow>
             if tzpos = length b then (if rv then None else Some (H, M, S, us, None))
             else if at b tzpos = CHR ''Z'' then
               (if at b (tzpos + 1) \<noteq> NUL then None else Some (H, M, S, us, Some 0))
             else
               (case parse_hh_mm_ss_ff b (tzpos + 1) (length b) of
                  None \<Rightarrow> None
                | Some (rv2, h, m, s, tzus) \<Rightarrow>
                    if rv2 then None
                    else
                      let sign = (if at b tzpos = CHR ''-'' then - 1 else 1);
                          seconds = sign * (h * 3600 + m * 60 + s)
                      in if seconds = 0 then Some (H, M, S, us, Some 0)
                         else Some (H, M, S, us, Some (seconds * US_PER_SECOND + sign * tzus))))"

definition invalid_isoformat :: "exn + pydatetime" where
  "invalid_isoformat = Inl (ValueError ''Invalid isoformat string'')"

text \<open>
  The constructor calls at the end: \<^verbatim>\<open>timezone(offset)\<close> wants an offset strictly
  between minus and plus 24 hours, \<^verbatim>\<open>datetime(...)\<close> checks the fields.
\<close>

definition build_datetime ::
  "int \<Rightarrow> int \<Rightarrow> int \<Rightarrow> int \<Rightarrow> int \<Rightarrow> int \<Rightarrow> int \<Rightarrow> int option \<Rightarrow> exn + pydatetime" where
  "build_datetime y m d H M S us tz =
     (case tz of
        None \<Rightarrow>
          (case mk_wall y m d H M S us of Inl e \<Rightarrow> Inl e | Inr w \<Rightarrow> Inr (Naive w))
      | Some off \<Rightarrow>
          if \<not> (- US_PER_DAY < off \<and> off < US_PER_DAY) then
            Inl (ValueError
              ''offset must be a timedelta strictly between -timedelta(hours=24) and timedelta(hours=24)'')
          else
            (case mk_wall y m d H M S us of Inl e \<Rightarrow> Inl e | Inr w \<Rightarrow> Inr (Aware w off)))"

definition fromisoformat :: "string \<Rightarrow> exn + pydatetime" where
  "fromisoformat s =
     (let b = utf8 s
      in if length b < 7 then invalid_isoformat
         else
           (case find_separator b of
              None \<Rightarrow> invalid_isoformat
            | Some sep \<Rightarrow>
                (case parse_isoformat_date b sep of
                   None \<Rightarrow> invalid_isoformat
                 | Some (y, m, d) \<Rightarrow>
                     if length b > sep then
                       (case parse_isoformat_time b
                               (if (of_char (at b sep) :: nat) < 128 then sep + 1 else sep + 2) of
                          None \<Rightarrow> invalid_isoformat
                        | Some (H, M, S, us, tz) \<Rightarrow> build_datetime y m d H M S us tz)
                     else build_datetime y m d 0 0 0 0 None)))"

subsection \<open>\<^verbatim>\<open>datetime.strptime(s, '%Y-%m-%d %H:%M')\<close>\<close>

text \<open>
  The format is matched as the library's regular expression does: \<^verbatim>\<open>%Y\<close> is four
  digits; \<^verbatim>\<open>%m\<close>, \<^verbatim>\<open>%d\<close>, \<^verbatim>\<open>%H\<close> and \<^verbatim>\<open>%M\<close> are one or two digits in their
  range (\<^verbatim>\<open>%d\<close> also a space and one digit); the blank of the format is one or more
  whitespace characters; nothing may follow the minutes. The resulting datetime is
  naive, with second and microsecond zero.
\<close>

definition is_space :: "char \<Rightarrow> bool" where
  "is_space c =
     (let n = (of_char c :: nat)
      in (9 \<le> n \<and> n \<le> 13) \<or> (28 \<le> n \<and> n \<le> 32) \<or> n = 133 \<or> n = 160)"

text \<open>\<^verbatim>\<open>1[0-2]|0[1-9]|[1-9]\<close>, then the dash.\<close>

definition match_month :: "string \<Rightarrow> (int \<times> string) option" where
  "match_month s =
     (case take_digits 2 s of
        Some (v, r) \<Rightarrow>
          (if 1 \<le> v \<and> v \<le> 12 then map_option (Pair v) (expect_char (CHR ''-'') r) else None)
      | None \<Rightarrow>
          (case take_digits 1 s of
             Some (v, r) \<Rightarrow>
               (if 1 \<le> v then map_option (Pair v) (expect_char (CHR ''-'') r) else None)
           | None \<Rightarrow> None))"

text \<open>\<^verbatim>\<open>3[0-1]|[1-2]\d|0[1-9]|[1-9]| [1-9]\<close>, then the whitespace.\<close>

definition match_space :: "string \<Rightarrow> string option" where
  "match_space s = (case s of [] \<Rightarrow> None | c # r \<Rightarrow> if is_space c then Some (dropWhile is_space r) else None)"

definition match_day :: "string \<Rightarrow> (int \<times> string) option" where
  "match_day s =
     (case take_digits 2 s of
        Some (v, r) \<Rightarrow>
          (if 1 \<le> v \<and> v \<le> 31 then map_option (Pair v) (match_space r) else None)
      | None \<Rightarrow>
          (case take_digits 1 (if take 1 s = '' '' then drop 1 s else s) of
             Some (v, r) \<Rightarrow>
               (if 1 \<le> v then map_option (Pair v) (match_space r) else None)
           | None \<Rightarrow> None))"

text \<open>\<^verbatim>\<open>2[0-3]|[0-1]\d|\d\<close>, then the colon.\<close>

definition match_hour :: "string \<Rightarrow> (int \<times> string) option" where
  "match_hour s =
     (case take_digits 2 s of
        Some (v, r) \<Rightarrow>
          (if v \<le> 23 then map_option (Pair v) (expect_char (CHR '':'') r) else None)
      | None \<Rightarrow>
          (case take_digits 1 s of
             Some (v, r) \<Rightarrow> map_option (Pair v) (expect_char (CHR '':'') r)
           | None \<Rightarrow> None))"

text \<open>\<^verbatim>\<open>[0-5]\d|\d\<close>, then the end of the string.\<close>

definition match_minute :: "string \<Rightarrow> int option" where
  "match_minute s =
     (case take_digits 2 s of
        Some (v, r) \<Rightarrow>
          (if v \<le> 59 then (if r = [] then Some v else None)
           else None)
      | None \<Rightarrow>
          (case take_digits 1 s of
             Some (v, r) \<Rightarrow> if r = [] then Some v else None
           | None \<Rightarrow> None))"

definition no_match :: "exn + int" where
  "no_match = Inl (ValueError ''time data does not match format'')"

definition strptime :: "string \<Rightarrow> exn + int" where
  "strptime s =
     (case take_digits 4 s of
        None \<Rightarrow> no_match
      | Some (y, r1) \<Rightarrow>
          (case expect_char (CHR ''-'') r1 of
             None \<Rightarrow> no_match
           | Some r2 \<Rightarrow>
               (case match_month r2 of
                  None \<Rightarrow> no_match
                | Some (m, r3) \<Rightarrow>
                    (case match_day r3 of
                       None \<Rightarrow> no_match
                     | Some (d, r4) \<Rightarrow>
                         (case match_hour r4 of
                            None \<Rightarrow> no_match
                          | Some (H, r5) \<Rightarrow>
                              (case match_minute r5 of
                                 None \<Rightarrow> no_match
                               | Some M \<Rightarrow> mk_wall y m d H M 0 0))))))"

subsection \<open>\<^verbatim>\<open>strftime\<close> and \<^verbatim>\<open>str\<close>\<close>

definition digit_char :: "int \<Rightarrow> char" where
  "digit_char d = ''0123456789'' ! nat d"

text \<open>Decimal text of an integer, as \<^verbatim>\<open>%d\<close> and an f-string print it.\<close>

fun show_nat :: "nat \<Rightarrow> string" where
  "show_nat n = (if n < 10 then [digit_char (int n)] else show_nat (n div 10) @ [digit_char (int (n mod 10))])"

definition show_int :: "int \<Rightarrow> string" where
  "show_int i = (if i < 0 then ''-'' @ show_nat (nat (- i)) else show_nat (nat i))"

definition pad2 :: "int \<Rightarrow> string" where
  "pad2 n = [digit_char (n div 10 mod 10), digit_char (n mod 10)]"

definition pad4 :: "int \<Rightarrow> string" where
  "pad4 n = pad2 (n div 100) @ pad2 (n mod 100)"

definition pad6 :: "int \<Rightarrow> string" where
  "pad6 n = pad2 (n div 10000) @ pad4 (n mod 10000)"

definition MONTH_NAMES :: "string list" where
  "MONTH_NAMES = ['''', ''January'', ''February'', ''March'', ''April'', ''May'', ''June'',
     ''July'', ''August'', ''September'', ''October'', ''November'', ''December'']"

text \<open>
  One directive of a format, as the C library of a Linux system prints it for CPython:
  \<^verbatim>\<open>%Y\<close> is the year in decimal without padding (a year before 1000 has fewer than
  four digits); \<^verbatim>\<open>%I\<close> is the hour on the 12-hour clock; \<^verbatim>\<open>%f\<close> is filled in
  by Python with six digits.
\<close>

definition directive :: "dt_fields \<Rightarrow> char \<Rightarrow> string" where
  "directive f c =
     (if c = CHR ''Y'' then show_int (year f)
      else if c = CHR ''m'' then pad2 (month f)
      else if c = CHR ''d'' then pad2 (day f)
      else if c = CHR ''H'' then pad2 (hour f)
      else if c = CHR ''M'' then pad2 (minute f)
      else if c = CHR ''S'' then pad2 (second f)
      else if c = CHR ''f'' then pad6 (microsecond f)
      else if c = CHR ''B'' then MONTH_NAMES ! nat (month f)
      else if c = CHR ''I'' then pad2 ((hour f + 11) mod 12 + 1)
      else if c = CHR ''p'' then (if hour f < 12 then ''AM'' else ''PM'')
      else [CHR ''%'', c])"

fun strftime_fields :: "dt_fields \<Rightarrow> string \<Rightarrow> string" where
  "strftime_fields f [] = []"
| "strftime_fields f [c] = [c]"
| "strftime_fields f (c # d # r) =
     (if c = CHR ''%'' then directive f d @ strftime_fields f r
      else c # strftime_fields f (d # r))"

fun wall_of :: "pydatetime \<Rightarrow> int" where
  "wall_of (Naive w) = w"
| "wall_of (Aware w off) = w"

text \<open>\<^verbatim>\<open>dt.strftime(pattern)\<close>: the patterns used print wall-clock fields only.\<close>

definition strftime :: "pydatetime \<Rightarrow> string \<Rightarrow> string" where
  "strftime dt pattern = strftime_fields (fields_of (wall_of dt)) pattern"

text \<open>The offset as \<^verbatim>\<open>str(dt)\<close> prints it: \<^verbatim>\<open>+HH:MM[:SS[.ffffff]]\<close>.\<close>

definition format_offset :: "int \<Rightarrow> string" where
  "format_offset off =
     (let a = \<bar>off\<bar>;
          hh = a div US_PER_HOUR;
          mm = (a mod US_PER_HOUR) div US_PER_MINUTE;
          ss = (a mod US_PER_MINUTE) div US_PER_SECOND;
          us = a mod US_PER_SECOND
      in (if off < 0 then ''-'' else ''+'') @ pad2 hh @ '':'' @ pad2 mm
         @ (if ss \<noteq> 0 \<or> us \<noteq> 0 then '':'' @ pad2 ss else [])
         @ (if us \<noteq> 0 then ''.'' @ pad6 us else []))"

text \<open>
  \<^verbatim>\<open>str(dt)\<close>, that is \<^verbatim>\<open>dt.isoformat(sep=' ')\<close>; here the year always has four
  digits.
\<close>

definition str_datetime :: "pydatetime \<Rightarrow> string" where
  "str_datetime dt =
     (let f = fields_of (wall_of dt)
      in pad4 (year f) @ strftime_fields f ''-%m-%d %H:%M:%S''
         @ (if microsecond f \<noteq> 0 then ''.'' @ pad6 (microsecond f) else [])
         @ (case dt of Naive w \<Rightarrow> [] | Aware w off \<Rightarrow> format_offset off))"

section \<open>The timezone library\<close>

text \<open>
  A timezone as \<^verbatim>\<open>pytz\<close> (release 2025.2) holds it: UTC itself, a zone with one fixed
  offset, or a zone with transitions. A transition is the UTC wall-clock reading at which it takes effect,
  the UTC offset from then on and the daylight-saving part of that offset, all in
  microseconds; the list is ordered by time and its first entry covers all earlier times.
\<close>

datatype zone =
    UtcZone
  | StaticTz int
  | DstTz "(int \<times> int \<times> int) list"

text \<open>
  The environment of the process: the timezone database (\<^verbatim>\<open>pytz.timezone\<close>; a name it
  does not know gives \<open>None\<close>) and the offset of the system's local timezone at a local
  wall-clock reading, which the library uses when it converts a naive datetime. The
  library finds that offset through the C library's \<^verbatim>\<open>localtime\<close>, also for the instant
  one day earlier, and raises \<^verbatim>\<open>ValueError\<close> when one of these lies outside the years
  1 to 9999; so the lookup can fail.
\<close>

record env =
  tzdb :: "string \<Rightarrow> zone option"
  local_offset :: "int \<Rightarrow> exn + int"

definition pytz_timezone :: "env \<Rightarrow> string \<Rightarrow> exn + zone" where
  "pytz_timezone E name =
     (case tzdb E name of None \<Rightarrow> Inl (UnknownTimeZoneError name) | Some z \<Rightarrow> Inr z)"

text \<open>
  The transition in force at a reading: the last one that starts at or before it, the
  first one when there is none (\<^verbatim>\<open>max(0, bisect_right(times, t) - 1)\<close>).
\<close>

fun info_at :: "(int \<times> int \<times> int) list \<Rightarrow> int \<Rightarrow> int \<times> int" where
  "info_at [] t = (0, 0)"
| "info_at [(t0, i0)] t = i0"
| "info_at ((t0, i0) # (t1, i1) # rest) t =
     (if t < t1 then i0 else info_at ((t1, i1) # rest) t)"

text \<open>\<^verbatim>\<open>tz.fromutc(dt)\<close>: a UTC reading seen in the zone.\<close>

fun fromutc :: "zone \<Rightarrow> int \<Rightarrow> exn + pydatetime" where
  "fromutc UtcZone u = Inr (Aware u 0)"
| "fromutc (StaticTz off) u =
     (case wall_add u off of Inl e \<Rightarrow> Inl e | Inr w \<Rightarrow> Inr (Aware w off))"
| "fromutc (DstTz trs) u =
     (let off = fst (info_at trs u)
      in case wall_add u off of Inl e \<Rightarrow> Inl e | Inr w \<Rightarrow> Inr (Aware w off))"

text \<open>
  \<^verbatim>\<open>dt.astimezone(tz)\<close>: the datetime is brought to UTC by subtracting its own offset
  (a naive one is taken to be in the system's local timezone, whose offset is looked up
  first), then seen in \<open>tz\<close>.
\<close>

fun astimezone :: "env \<Rightarrow> pydatetime \<Rightarrow> zone \<Rightarrow> exn + pydatetime" where
  "astimezone E (Aware w off) z =
     (case wall_add w (- off) of Inl e \<Rightarrow> Inl e | Inr u \<Rightarrow> fromutc z u)"
| "astimezone E (Naive w) z =
     (case local_offset E w of
        Inl e \<Rightarrow> Inl e
      | Inr off \<Rightarrow>
          (case wall_add w (- off) of Inl e \<Rightarrow> Inl e | Inr u \<Rightarrow> fromutc z u))"

text \<open>
  One probe of \<^verbatim>\<open>localize\<close>: the transition in force at \<open>w + delta\<close> is tried as the
  offset of \<open>w\<close>; the reading is normalised (brought to UTC with that offset and seen in
  the zone again) and kept when its wall clock is still \<open>w\<close>. The result is the list of
  the kept (offset, dst) pairs, at most one.
\<close>

definition localize_probe :: "(int \<times> int \<times> int) list \<Rightarrow> int \<Rightarrow> int \<Rightarrow> exn + (int \<times> int) list" where
  "localize_probe trs w delta =
     (case wall_add w delta of
        Inl e \<Rightarrow> Inl e
      | Inr loc \<Rightarrow>
          (case wall_add w (- fst (info_at trs loc)) of
             Inl e \<Rightarrow> Inl e
           | Inr u \<Rightarrow>
               (case wall_add u (fst (info_at trs u)) of
                  Inl e \<Rightarrow> Inl e
                | Inr r \<Rightarrow> Inr (if r = w then [info_at trs u] else []))))"

text \<open>
  The candidates of \<^verbatim>\<open>localize\<close>: the probes a day before and a day after, collected
  in a set of datetimes, where two candidates with the same offset are the same element.
\<close>

definition possible_loc_dt :: "(int \<times> int \<times> int) list \<Rightarrow> int \<Rightarrow> exn + (int \<times> int) list" where
  "possible_loc_dt trs w =
     (case localize_probe trs w (- US_PER_DAY) of
        Inl e \<Rightarrow> Inl e
      | Inr c1 \<Rightarrow>
          (case localize_probe trs w US_PER_DAY of
             Inl e \<Rightarrow> Inl e
           | Inr c2 \<Rightarrow> Inr (c1 @ filter (\<lambda>c. fst c \<notin> fst ` set c1) c2)))"

text \<open>
  The choice among several candidates with \<^verbatim>\<open>is_dst=False\<close>: the ones without
  daylight saving; when exactly one is left it is taken, when none is left all are
  considered again; of several, the latest in UTC, which is the smallest offset.
\<close>

definition choose_candidate :: "(int \<times> int) list \<Rightarrow> int \<times> int" where
  "choose_candidate cands =
     (let filtered = filter (\<lambda>c. snd c = 0) cands;
          pool = (if filtered = [] then cands else filtered)
      in fold (\<lambda>c best. if fst c < fst best then c else best) (tl pool) (hd pool))"

text \<open>
  \<^verbatim>\<open>tz.localize(dt)\<close> of a zone with transitions, with the default
  \<^verbatim>\<open>is_dst=False\<close>. A wall-clock reading that no offset produces (it falls into the
  gap of a transition) is localised six hours earlier and the six hours are added back.
\<close>

function dst_localize :: "(int \<times> int \<times> int) list \<Rightarrow> int \<Rightarrow> exn + pydatetime" where
  "dst_localize trs w =
     (case possible_loc_dt trs w of
        Inl e \<Rightarrow> Inl e
      | Inr cands \<Rightarrow>
          if cands = [] then
            (case wall_add w (- (6 * US_PER_HOUR)) of
               Inl e \<Rightarrow> Inl e
             | Inr w' \<Rightarrow>
                 (case dst_localize trs w' of
                    Inl e \<Rightarrow> Inl e
                  | Inr (Naive v) \<Rightarrow> Inl (TypeError ''naive result of localize'')
                  | Inr (Aware v off) \<Rightarrow>
                      (case wall_add v (6 * US_PER_HOUR) of
                         Inl e \<Rightarrow> Inl e
                       | Inr v' \<Rightarrow> Inr (Aware v' off))))
          else Inr (Aware w (fst (choose_candidate cands))))"
  by pat_completeness auto
termination
  by (relation "measure (\<lambda>(trs, w). nat w)")
     (auto simp: wall_add_def in_range_def US_PER_HOUR_def split: if_splits)

text \<open>\<^verbatim>\<open>tz.localize(dt)\<close> for a naive reading.\<close>

fun localize :: "zone \<Rightarrow> int \<Rightarrow> exn + pydatetime" where
  "localize UtcZone w = Inr (Aware w 0)"
| "localize (StaticTz off) w = Inr (Aware w off)"
| "localize (DstTz trs) w = dst_localize trs w"

section \<open>TimezoneHandler\<close>

text \<open>
  \<^verbatim>\<open>datetime.now(pytz.UTC)\<close>: the clock is a parameter \<open>now\<close>, the current UTC
  wall-clock reading.
\<close>

definition utc_now :: "int \<Rightarrow> pydatetime" where
  "utc_now now = Aware now 0"

text \<open>What \<^verbatim>\<open>except (pytz.UnknownTimeZoneError, ValueError)\<close> catches.\<close>

fun tz_or_value_error :: "exn \<Rightarrow> bool" where
  "tz_or_value_error (ValueError m) = True"
| "tz_or_value_error (UnknownTimeZoneError m) = True"
| "tz_or_value_error _ = False"

text \<open>
  \<^verbatim>\<open>convert_utc_to_user_timezone\<close> (lines 60 to 90 of \<^verbatim>\<open>cal_wrapper.py\<close>). The body
  of the \<^verbatim>\<open>try\<close> is the inner \<open>case\<close>; the handler replaces the two caught
  exceptions by the current time, and any other exception leaves the function.
\<close>

definition convert_utc_to_user_timezone :: "env \<Rightarrow> int \<Rightarrow> string \<Rightarrow> string \<Rightarrow> exn + pydatetime" where
  "convert_utc_to_user_timezone E now utc_datetime_str user_timezone =
     (case (case fromisoformat (replace_Z utc_datetime_str) of
              Inl e \<Rightarrow> Inl e
            | Inr utc_dt \<Rightarrow>
                if user_timezone = ''UTC'' then Inr utc_dt
                else
                  (case pytz_timezone E user_timezone of
                     Inl e \<Rightarrow> Inl e
                   | Inr user_tz \<Rightarrow> astimezone E utc_dt user_tz)) of
        Inl e \<Rightarrow> if tz_or_value_error e then Inr (utc_now now) else Inl e
      | Inr dt \<Rightarrow> Inr dt)"

text \<open>\<^verbatim>\<open>convert_user_time_to_utc\<close> (lines 92 to 123), built the same way.\<close>

definition convert_user_time_to_utc :: "env \<Rightarrow> int \<Rightarrow> string \<Rightarrow> string \<Rightarrow> string \<Rightarrow> exn + pydatetime" where
  "convert_user_time_to_utc E now date_str time_str user_timezone =
     (case (case strptime (date_str @ '' '' @ time_str) of
              Inl e \<Rightarrow> Inl e
            | Inr target_dt \<Rightarrow>
                if user_timezone = ''UTC'' then Inr (Aware target_dt 0)
                else
                  (case pytz_timezone E user_timezone of
                     Inl e \<Rightarrow> Inl e
                   | Inr user_tz \<Rightarrow>
                       (case localize user_tz target_dt of
                          Inl e \<Rightarrow> Inl e
                        | Inr target_dt_with_tz \<Rightarrow> astimezone E target_dt_with_tz UtcZone))) of
        Inl e \<Rightarrow> if tz_or_value_error e then Inr (utc_now now) else Inl e
      | Inr dt \<Rightarrow> Inr dt)"

definition quote :: string where
  "quote = [CHR 0x27]"

text \<open>The slice \<^verbatim>\<open>s[:-3]\<close>.\<close>

definition drop_last3 :: "string \<Rightarrow> string" where
  "drop_last3 s = take (length s - 3) s"

text \<open>
  \<^verbatim>\<open>convert_iso_to_utc_api_format\<close> (lines 125 to 160): the two caught exceptions are
  raised again as a \<^verbatim>\<open>ValueError\<close> that names the input.
\<close>

definition convert_iso_to_utc_api_format :: "env \<Rightarrow> string \<Rightarrow> string \<Rightarrow> exn + string" where
  "convert_iso_to_utc_api_format E start_time_iso user_timezone =
     (case (case fromisoformat (replace_Z start_time_iso) of
              Inl e \<Rightarrow> Inl e
            | Inr dt_object \<Rightarrow>
                (case (case dt_object of
                         Naive w \<Rightarrow>
                           (case pytz_timezone E user_timezone of
                              Inl e \<Rightarrow> Inl e
                            | Inr user_tz \<Rightarrow> localize user_tz w)
                       | Aware w off \<Rightarrow> Inr dt_object) of
                   Inl e \<Rightarrow> Inl e
                 | Inr dt_object' \<Rightarrow>
                     (case astimezone E dt_object' UtcZone of
                        Inl e \<Rightarrow> Inl e
                      | Inr utc_dt \<Rightarrow>
                          Inr (drop_last3 (strftime utc_dt ''%Y-%m-%dT%H:%M:%S.%fZ'') @ ''Z'')))) of
        Inl e \<Rightarrow>
          if tz_or_value_error e then
            Inl (ValueError (''Invalid start time format '' @ quote @ start_time_iso @ quote
                             @ ''. Please use ISO 8601 format.''))
          else Inl e
      | Inr s \<Rightarrow> Inr s)"

text \<open>\<^verbatim>\<open>parse_utc_datetime_string\<close> (lines 162 to 182).\<close>

definition parse_utc_datetime_string :: "string \<Rightarrow> exn + pydatetime" where
  "parse_utc_datetime_string utc_datetime_str =
     (case fromisoformat (replace_Z utc_datetime_str) of
        Inl (ValueError m) \<Rightarrow> Inl (ValueError (''Invalid UTC datetime format: '' @ utc_datetime_str))
      | Inl e \<Rightarrow> Inl e
      | Inr dt \<Rightarrow> Inr dt)"

text \<open>
  The same call on a value read from a dictionary: a value that is not a string has no
  \<^verbatim>\<open>replace\<close> method.
\<close>

fun parse_utc_datetime_value :: "pyval \<Rightarrow> exn + pydatetime" where
  "parse_utc_datetime_value (PStr s) = parse_utc_datetime_string s"
| "parse_utc_datetime_value _ = Inl (AttributeError ''object has no attribute replace'')"

section \<open>DateTimeFormatter\<close>

datatype FormatType = TIME_ONLY | DATE_TIME | FRIENDLY | DEFAULT

fun FormatType_value :: "FormatType \<Rightarrow> string" where
  "FormatType_value TIME_ONLY = ''time_only''"
| "FormatType_value DATE_TIME = ''date_time''"
| "FormatType_value FRIENDLY = ''friendly''"
| "FormatType_value DEFAULT = ''datetime''"

text \<open>\<^verbatim>\<open>FormatType(s)\<close>: the member with that value, or \<^verbatim>\<open>ValueError\<close>.\<close>

definition FormatType_of :: "string \<Rightarrow> exn + FormatType" where
  "FormatType_of s =
     (case find (\<lambda>t. FormatType_value t = s) [TIME_ONLY, DATE_TIME, FRIENDLY, DEFAULT] of
        None \<Rightarrow> Inl (ValueError (s @ '' is not a valid FormatType''))
      | Some t \<Rightarrow> Inr t)"

definition FORMAT_PATTERNS :: "(FormatType \<times> string) list" where
  "FORMAT_PATTERNS =
     [(TIME_ONLY, ''%H:%M''),
      (DATE_TIME, ''%Y-%m-%d %H:%M''),
      (FRIENDLY, ''%B %d, %Y at %I:%M %p''),
      (DEFAULT, ''%Y-%m-%d %H:%M'')]"

text \<open>\<^verbatim>\<open>cls.FORMAT_PATTERNS[FormatType.DEFAULT]\<close>, the fallback of the lookup.\<close>

definition DEFAULT_PATTERN :: string where
  "DEFAULT_PATTERN = (case map_of FORMAT_PATTERNS DEFAULT of None \<Rightarrow> [] | Some pattern \<Rightarrow> pattern)"

text \<open>The argument \<^verbatim>\<open>format_type: Union[str, FormatType]\<close>.\<close>

datatype format_arg = FormatStr string | FormatEnum FormatType

text \<open>
  \<^verbatim>\<open>format_for_display\<close> (lines 195 to 223): a string that names no format kind
  makes \<^verbatim>\<open>FormatType(format_type)\<close> raise, and the handler returns \<^verbatim>\<open>str(dt)\<close>.
\<close>

definition format_for_display :: "pydatetime \<Rightarrow> string \<Rightarrow> format_arg \<Rightarrow> string" where
  "format_for_display dt user_timezone format_type =
     (case (case format_type of FormatStr s \<Rightarrow> FormatType_of s | FormatEnum t \<Rightarrow> Inr t) of
        Inl e \<Rightarrow> str_datetime dt
      | Inr t \<Rightarrow>
          strftime dt
            (case map_of FORMAT_PATTERNS t of
               None \<Rightarrow> DEFAULT_PATTERN
             | Some pattern \<Rightarrow> pattern))"

section \<open>CalApiConfig and CalApiClient\<close>

record ApiResponse =
  success :: bool
  data :: pyval
  error :: "string option"
  status_code :: "int option"

text \<open>
  The configuration read from the environment; \<^verbatim>\<open>os.getenv\<close> gives a string or
  \<^verbatim>\<open>None\<close>.
\<close>

record CalApiConfig =
  api_key :: string
  base_url :: string
  event_type_id :: "string option"
  user_email :: "string option"

definition DEFAULT_API_VERSION :: string where
  "DEFAULT_API_VERSION = ''2024-08-13''"

definition SLOTS_API_VERSION :: string where
  "SLOTS_API_VERSION = ''2024-09-04''"

text \<open>\<^verbatim>\<open>api_version or self.DEFAULT_API_VERSION\<close>: \<^verbatim>\<open>None\<close> and the empty string
  give the default.\<close>

definition get_headers :: "CalApiConfig \<Rightarrow> string option \<Rightarrow> (string \<times> string) list" where
  "get_headers config api_version =
     [(''Authorization'', ''Bearer '' @ api_key config),
      (''Content-Type'', ''application/json''),
      (''cal-api-version'',
         (case api_version of
            None \<Rightarrow> DEFAULT_API_VERSION
          | Some v \<Rightarrow> if v = [] then DEFAULT_API_VERSION else v))]"

text \<open>
  One HTTP request as \<^verbatim>\<open>requests.request\<close> receives it, and what can come back: a
  transport failure (\<^verbatim>\<open>RequestException\<close>) with its message, or a response with its
  status code, its text and the outcome of \<^verbatim>\<open>response.json()\<close>. A body that is not
  JSON makes \<^verbatim>\<open>response.json()\<close> raise; depending on the version of the HTTP library
  the exception is a \<^verbatim>\<open>RequestException\<close> or a plain \<^verbatim>\<open>ValueError\<close>.
\<close>

record request =
  req_method :: string
  req_url :: string
  req_headers :: "(string \<times> string) list"
  req_params :: "(string \<times> string) list"
  req_json :: "pyval option"

datatype json_outcome =
    JsonOk pyval
  | JsonRequestException string
  | JsonValueError string

datatype http_outcome =
    RequestException string
  | HttpResponse int string json_outcome

text \<open>\<^verbatim>\<open>endpoint.lstrip('/')\<close>.\<close>

definition lstrip_slash :: "string \<Rightarrow> string" where
  "lstrip_slash s = dropWhile (\<lambda>c. c = CHR ''/'') s"

definition build_request ::
  "CalApiConfig \<Rightarrow> string \<Rightarrow> string \<Rightarrow> string option \<Rightarrow> (string \<times> string) list \<Rightarrow> pyval option \<Rightarrow> request" where
  "build_request config method endpoint api_version params body =
     \<lparr> req_method = method,
       req_url = base_url config @ ''/'' @ lstrip_slash endpoint,
       req_headers = get_headers config api_version,
       req_params = params,
       req_json = body \<rparr>"

text \<open>
  \<^verbatim>\<open>_make_request\<close>, given what the remote side answers to the request.
\<close>

definition make_request_outcome :: "http_outcome \<Rightarrow> ApiResponse" where
  "make_request_outcome outcome =
     (case outcome of
        RequestException msg \<Rightarrow>
          \<lparr> success = False, data = PNone, error = Some msg, status_code = None \<rparr>
      | HttpResponse code txt js \<Rightarrow>
          if code \<ge> 400 then
            \<lparr> success = False, data = PNone,
              error = Some (''HTTP '' @ show_int code @ '': '' @ txt),
              status_code = Some code \<rparr>
          else
            (case js of
               JsonOk v \<Rightarrow>
                 \<lparr> success = True, data = v, error = None, status_code = Some code \<rparr>
             | JsonRequestException msg \<Rightarrow>
                 \<lparr> success = False, data = PNone, error = Some msg, status_code = None \<rparr>
             | JsonValueError msg \<Rightarrow>
                 \<lparr> success = False, data = PNone,
                   error = Some (''Invalid JSON response: '' @ msg), status_code = None \<rparr>))"

definition make_request ::
  "CalApiConfig \<Rightarrow> (request \<Rightarrow> http_outcome) \<Rightarrow> string \<Rightarrow> string \<Rightarrow> string option
     \<Rightarrow> (string \<times> string) list \<Rightarrow> pyval option \<Rightarrow> ApiResponse" where
  "make_request config remote method endpoint api_version params body =
     make_request_outcome (remote (build_request config method endpoint api_version params body))"

text \<open>The requests of \<^verbatim>\<open>get_bookings\<close>, \<^verbatim>\<open>create_booking\<close> and \<^verbatim>\<open>cancel_booking\<close>.\<close>

definition get_bookings_request :: "CalApiConfig \<Rightarrow> string \<Rightarrow> request" where
  "get_bookings_request config email =
     build_request config ''GET'' ''bookings'' None [(''attendeeEmail'', email)] None"

definition create_booking_request :: "CalApiConfig \<Rightarrow> pyval \<Rightarrow> request" where
  "create_booking_request config payload =
     build_request config ''POST'' ''bookings'' None [] (Some payload)"

definition cancel_booking_request :: "CalApiConfig \<Rightarrow> string \<Rightarrow> string \<Rightarrow> request" where
  "cancel_booking_request config booking_uid reason =
     build_request config ''POST'' (''bookings/'' @ booking_uid @ ''/cancel'') None []
       (Some (PDict [(''cancellationReason'', PStr reason)]))"

section \<open>BookingMatcher\<close>

definition ACCEPTED :: string where
  "ACCEPTED = ''accepted''"

text \<open>What \<^verbatim>\<open>except (ValueError, TypeError)\<close> catches.\<close>

fun value_or_type_error :: "exn \<Rightarrow> bool" where
  "value_or_type_error (ValueError m) = True"
| "value_or_type_error (TypeError m) = True"
| "value_or_type_error _ = False"

text \<open>
  The body of the loop of \<^verbatim>\<open>find_booking_by_time\<close> for one booking: \<open>Inr True\<close> when
  the booking is returned, \<open>Inr False\<close> when the loop continues, \<open>Inl e\<close> when an
  exception leaves the loop.
\<close>

definition booking_matches :: "pydatetime \<Rightarrow> pyval \<Rightarrow> exn + bool" where
  "booking_matches target_dt_utc booking =
     (case py_get booking ''status'' (PStr []) of
        Inl e \<Rightarrow> Inl e
      | Inr st \<Rightarrow>
          (case py_lower st of
             Inl e \<Rightarrow> Inl e
           | Inr l \<Rightarrow>
               if l \<noteq> ACCEPTED then Inr False
               else
                 (case py_get booking ''start'' (PStr []) of
                    Inl e \<Rightarrow> Inl e
                  | Inr booking_start \<Rightarrow>
                      if \<not> truthy booking_start then Inr False
                      else
                        (case parse_utc_datetime_value booking_start of
                           Inl e \<Rightarrow> if value_or_type_error e then Inr False else Inl e
                         | Inr booking_dt_utc \<Rightarrow>
                             Inr (dt_eq (replace_second_microsecond booking_dt_utc)
                                        (replace_second_microsecond target_dt_utc))))))"

fun scan_bookings :: "pydatetime \<Rightarrow> pyval list \<Rightarrow> exn + pyval option" where
  "scan_bookings target_dt_utc [] = Inr None"
| "scan_bookings target_dt_utc (booking # rest) =
     (case booking_matches target_dt_utc booking of
        Inl e \<Rightarrow> Inl e
      | Inr matched \<Rightarrow>
          if matched then Inr (Some booking) else scan_bookings target_dt_utc rest)"

text \<open>
  \<^verbatim>\<open>find_booking_by_time\<close>: every exception is caught and gives \<^verbatim>\<open>None\<close>.
\<close>

definition find_booking_by_time ::
  "env \<Rightarrow> int \<Rightarrow> pyval list \<Rightarrow> string \<Rightarrow> string \<Rightarrow> string \<Rightarrow> pyval option" where
  "find_booking_by_time E now bookings target_date target_time user_timezone =
     (case convert_user_time_to_utc E now target_date target_time user_timezone of
        Inl e \<Rightarrow> None
      | Inr target_dt_utc \<Rightarrow>
          (case scan_bookings target_dt_utc bookings of
             Inl e \<Rightarrow> None
           | Inr r \<Rightarrow> r))"

text \<open>
  \<^verbatim>\<open>convert_utc_to_user_timezone\<close> on a value read from a dictionary.
\<close>

fun convert_utc_value_to_user_timezone :: "env \<Rightarrow> int \<Rightarrow> pyval \<Rightarrow> string \<Rightarrow> exn + pydatetime" where
  "convert_utc_value_to_user_timezone E now (PStr s) user_timezone =
     convert_utc_to_user_timezone E now s user_timezone"
| "convert_utc_value_to_user_timezone E now v user_timezone =
     Inl (AttributeError ''object has no attribute replace'')"

text \<open>
  One line of \<^verbatim>\<open>format_booking_list\<close>. The handler of the \<^verbatim>\<open>try\<close> block reads the
  booking again, so a booking that is not a dictionary makes the handler itself raise.
\<close>

definition format_booking_line ::
  "env \<Rightarrow> int \<Rightarrow> (pyval \<Rightarrow> string) \<Rightarrow> string \<Rightarrow> pyval \<Rightarrow> exn + string" where
  "format_booking_line E now repr user_timezone booking =
     (case (case py_get booking ''title'' (PStr ''Untitled'') of
              Inl e \<Rightarrow> Inl e
            | Inr title \<Rightarrow>
                (case py_get booking ''start'' (PStr []) of
                   Inl e \<Rightarrow> Inl e
                 | Inr start \<Rightarrow>
                     if \<not> truthy start then
                       Inr (''- '' @ py_str repr title @ '': No start time available'')
                     else
                       (case convert_utc_value_to_user_timezone E now start user_timezone of
                          Inl e \<Rightarrow> Inl e
                        | Inr booking_dt_user_tz \<Rightarrow>
                            Inr (''- '' @ py_str repr title @ '': ''
                                 @ format_for_display booking_dt_user_tz user_timezone
                                     (FormatEnum DATE_TIME)
                                 @ '' ('' @ user_timezone @ '')'')))) of
        Inr line \<Rightarrow> Inr line
      | Inl e \<Rightarrow>
          (case py_get booking ''title'' (PStr ''Unknown'') of
             Inl e' \<Rightarrow> Inl e'
           | Inr title \<Rightarrow>
               (case py_get booking ''start'' (PStr ''Unknown time'') of
                  Inl e' \<Rightarrow> Inl e'
                | Inr start \<Rightarrow> Inr (''- '' @ py_str repr title @ '': '' @ py_str repr start))))"

fun format_lines ::
  "env \<Rightarrow> int \<Rightarrow> (pyval \<Rightarrow> string) \<Rightarrow> string \<Rightarrow> pyval list \<Rightarrow> exn + string list" where
  "format_lines E now repr user_timezone [] = Inr []"
| "format_lines E now repr user_timezone (booking # rest) =
     (case format_booking_line E now repr user_timezone booking of
        Inl e \<Rightarrow> Inl e
      | Inr line \<Rightarrow>
          (case format_lines E now repr user_timezone rest of
             Inl e \<Rightarrow> Inl e
           | Inr lines \<Rightarrow> Inr (line # lines)))"

definition format_booking_list ::
  "env \<Rightarrow> int \<Rightarrow> (pyval \<Rightarrow> string) \<Rightarrow> pyval list \<Rightarrow> string \<Rightarrow> nat \<Rightarrow> exn + string list" where
  "format_booking_list E now repr bookings user_timezone limit =
     format_lines E now repr user_timezone (take limit bookings)"

section \<open>The shared helper\<close>

text \<open>The text an f-string inserts for an \<^verbatim>\<open>Optional[str]\<close>.\<close>

definition str_optional :: "string option \<Rightarrow> string" where
  "str_optional x = (case x of None \<Rightarrow> ''None'' | Some s \<Rightarrow> s)"

text \<open>
  The test \<^verbatim>\<open>not response.data or response.data.get("status") != "success"\<close> together
  with the message built when it holds: \<open>Inr None\<close> when the payload reports success,
  \<open>Inr (Some msg)\<close> with the detail otherwise.
\<close>

definition payload_failure :: "(pyval \<Rightarrow> string) \<Rightarrow> pyval \<Rightarrow> exn + string option" where
  "payload_failure repr d =
     (if \<not> truthy d then Inr (Some ''No data'')
      else
        (case py_get d ''status'' PNone of
           Inl e \<Rightarrow> Inl e
         | Inr st \<Rightarrow>
             if st \<noteq> PStr ''success'' then
               (case py_get d ''error'' (PStr ''Unknown error'') of
                  Inl e \<Rightarrow> Inl e
                | Inr error_msg \<Rightarrow> Inr (Some (py_str repr error_msg)))
             else Inr None))"

text \<open>\<^verbatim>\<open>for x in v\<close>: the elements a value yields when it is iterated.\<close>

fun py_iter :: "pyval \<Rightarrow> exn + pyval list" where
  "py_iter (PList xs) = Inr xs"
| "py_iter (PDict kvs) = Inr (map (\<lambda>kv. PStr (fst kv)) kvs)"
| "py_iter (PStr s) = Inr (map (\<lambda>c. PStr [c]) s)"
| "py_iter _ = Inl (TypeError ''object is not iterable'')"

text \<open>
  The body of the filter loop for one booking: \<open>Inr True\<close> when the booking is appended.
  Whatever goes wrong inside the \<^verbatim>\<open>try\<close> block (the start does not parse, or it
  cannot be compared with the current time) appends the booking.
\<close>

definition keep_booking :: "int \<Rightarrow> pyval \<Rightarrow> exn + bool" where
  "keep_booking now booking =
     (case py_get booking ''status'' (PStr []) of
        Inl e \<Rightarrow> Inl e
      | Inr st \<Rightarrow>
          (case py_lower st of
             Inl e \<Rightarrow> Inl e
           | Inr l \<Rightarrow>
               if l \<noteq> ACCEPTED then Inr False
               else
                 (case py_get booking ''start'' (PStr []) of
                    Inl e \<Rightarrow> Inl e
                  | Inr booking_start \<Rightarrow>
                      if truthy booking_start then
                        (case parse_utc_datetime_value booking_start of
                           Inl e \<Rightarrow> Inr True
                         | Inr booking_dt_utc \<Rightarrow>
                             (case dt_gt booking_dt_utc (utc_now now) of
                                Inl e \<Rightarrow> Inr True
                              | Inr later \<Rightarrow> Inr later))
                      else Inr False)))"

fun filter_upcoming :: "int \<Rightarrow> pyval list \<Rightarrow> exn + pyval list" where
  "filter_upcoming now [] = Inr []"
| "filter_upcoming now (booking # rest) =
     (case keep_booking now booking of
        Inl e \<Rightarrow> Inl e
      | Inr keep \<Rightarrow>
          (case filter_upcoming now rest of
             Inl e \<Rightarrow> Inl e
           | Inr kept \<Rightarrow> Inr (if keep then booking # kept else kept)))"

text \<open>
  The part of \<^verbatim>\<open>_get_upcoming_accepted_bookings\<close> after the fetch, on the response
  the fetch returned. The result is the pair (accepted bookings, error message).
\<close>

definition upcoming_of_response ::
  "int \<Rightarrow> (pyval \<Rightarrow> string) \<Rightarrow> ApiResponse \<Rightarrow> exn + (pyval list option \<times> string option)" where
  "upcoming_of_response now repr response =
     (if \<not> success response then
        Inr (None, Some (''Error fetching bookings: '' @ str_optional (error response)))
      else
        (case payload_failure repr (data response) of
           Inl e \<Rightarrow> Inl e
         | Inr (Some error_msg) \<Rightarrow>
             Inr (None, Some (''Error: API returned failure. Details: '' @ error_msg))
         | Inr None \<Rightarrow>
             (case py_get (data response) ''data'' (PList []) of
                Inl e \<Rightarrow> Inl e
              | Inr all_bookings \<Rightarrow>
                  (case py_iter all_bookings of
                     Inl e \<Rightarrow> Inl e
                   | Inr bookings \<Rightarrow>
                       (case filter_upcoming now bookings of
                          Inl e \<Rightarrow> Inl e
                        | Inr accepted_bookings \<Rightarrow> Inr (Some accepted_bookings, None))))))"

definition get_upcoming_accepted_bookings ::
  "CalApiConfig \<Rightarrow> (request \<Rightarrow> http_outcome) \<Rightarrow> int \<Rightarrow> (pyval \<Rightarrow> string) \<Rightarrow> string
     \<Rightarrow> exn + (pyval list option \<times> string option)" where
  "get_upcoming_accepted_bookings config remote now repr email =
     upcoming_of_response now repr
       (make_request config remote ''GET'' ''bookings'' None [(''attendeeEmail'', email)] None)"

section \<open>The tools\<close>

text \<open>
  A tool returns a string or lets an exception out (\<open>Inl\<close>). Next to its result the
  model gives the requests the tool has sent to the remote API, in order.
\<close>

definition newline :: string where
  "newline = [CHR 0x0A]"

fun join :: "string \<Rightarrow> string list \<Rightarrow> string" where
  "join sep [] = []"
| "join sep [x] = x"
| "join sep (x # y # r) = x @ sep @ join sep (y # r)"

text \<open>\<^verbatim>\<open>d[key]\<close>.\<close>

fun py_getitem :: "pyval \<Rightarrow> string \<Rightarrow> exn + pyval" where
  "py_getitem (PDict kvs) k =
     (case map_of kvs k of None \<Rightarrow> Inl (KeyError k) | Some v \<Rightarrow> Inr v)"
| "py_getitem _ k = Inl (TypeError ''object is not subscriptable'')"

text \<open>
  \<^verbatim>\<open>int(s)\<close> for a string: blanks around an optional sign and decimal digits
  (digit grouping with underscores is not part of the model).
\<close>

definition strip :: "string \<Rightarrow> string" where
  "strip s = rev (dropWhile is_space (rev (dropWhile is_space s)))"

definition digits_value :: "string \<Rightarrow> int" where
  "digits_value ds = foldl (\<lambda>a c. 10 * a + (case digit_val c of None \<Rightarrow> 0 | Some d \<Rightarrow> d)) 0 ds"

definition py_int :: "string \<Rightarrow> exn + int" where
  "py_int s =
     (let t = strip s;
          neg = (take 1 t = ''-'');
          ds = (if take 1 t = ''-'' \<or> take 1 t = ''+'' then drop 1 t else t)
      in if ds \<noteq> [] \<and> list_all is_digit ds
         then Inr ((if neg then - 1 else 1) * digits_value ds)
         else Inl (ValueError ''invalid literal for int() with base 10''))"

definition NOT_CONFIGURED :: string where
  "NOT_CONFIGURED = ''Error: EVENT_TYPE_ID is not configured. Please check your .env file.''"

definition NONE_FOUND :: string where
  "NONE_FOUND = ''No upcoming accepted bookings found for that email.''"

definition UID_NOT_FOUND :: string where
  "UID_NOT_FOUND = ''Error: Booking UID not found in booking data.''"

subsection \<open>\<^verbatim>\<open>create_booking\<close>\<close>

definition booking_payload :: "string \<Rightarrow> string \<Rightarrow> string \<Rightarrow> string \<Rightarrow> int \<Rightarrow> pyval" where
  "booking_payload utc_time user_name email user_timezone etid =
     PDict [(''start'', PStr utc_time),
            (''attendee'', PDict [(''name'', PStr user_name), (''email'', PStr email),
                                  (''timeZone'', PStr user_timezone)]),
            (''eventTypeId'', PInt etid)]"

text \<open>What \<^verbatim>\<open>create_booking\<close> does with the response of the API.\<close>

definition create_booking_reply ::
  "env \<Rightarrow> int \<Rightarrow> (pyval \<Rightarrow> string) \<Rightarrow> ApiResponse \<Rightarrow> string \<Rightarrow> string \<Rightarrow> string \<Rightarrow> string
     \<Rightarrow> string \<Rightarrow> exn + string" where
  "create_booking_reply E now repr response start_time_iso user_name email title user_timezone =
     (if \<not> success response then
        Inr (''Error: Booking creation failed. '' @ str_optional (error response))
      else
        (case payload_failure repr (data response) of
           Inl e \<Rightarrow> Inl e
         | Inr (Some error_msg) \<Rightarrow>
             Inr (''Error: Booking creation failed. API response: '' @ error_msg)
         | Inr None \<Rightarrow>
             (case py_get (data response) ''data'' (PDict []) of
                Inl e \<Rightarrow> Inl e
              | Inr booking_data \<Rightarrow>
                  (case py_get booking_data ''uid'' (PStr ''Unknown UID'') of
                     Inl e \<Rightarrow> Inl e
                   | Inr booking_uid \<Rightarrow>
                       (case convert_utc_to_user_timezone E now start_time_iso user_timezone of
                          Inl e \<Rightarrow>
                            Inr (''Success! Meeting '' @ quote @ title @ quote @ '' booked for ''
                                 @ user_name @ '' at '' @ start_time_iso
                                 @ ''. Confirmation sent to '' @ email
                                 @ ''. Booking UID: '' @ py_str repr booking_uid)
                        | Inr dt_user_tz \<Rightarrow>
                            Inr (''Success! Meeting '' @ quote @ title @ quote @ '' booked for ''
                                 @ user_name @ '' on ''
                                 @ format_for_display dt_user_tz user_timezone (FormatEnum FRIENDLY)
                                 @ '' ('' @ user_timezone @ ''). Confirmation sent to '' @ email
                                 @ ''. Booking UID: '' @ py_str repr booking_uid))))))"

definition create_booking ::
  "CalApiConfig \<Rightarrow> env \<Rightarrow> (request \<Rightarrow> http_outcome) \<Rightarrow> int \<Rightarrow> (pyval \<Rightarrow> string)
     \<Rightarrow> string \<Rightarrow> string \<Rightarrow> string \<Rightarrow> string \<Rightarrow> string \<Rightarrow> (exn + string) \<times> request list" where
  "create_booking config E remote now repr start_time_iso user_name email title user_timezone =
     (case event_type_id config of
        None \<Rightarrow> (Inr NOT_CONFIGURED, [])
      | Some etid \<Rightarrow>
          if etid = [] then (Inr NOT_CONFIGURED, [])
          else
            (case convert_iso_to_utc_api_format E start_time_iso user_timezone of
               Inl (ValueError m) \<Rightarrow> (Inr m, [])
             | Inl e \<Rightarrow> (Inl e, [])
             | Inr utc_time \<Rightarrow>
                 (case py_int etid of
                    Inl e \<Rightarrow> (Inl e, [])
                  | Inr n \<Rightarrow>
                      let req = create_booking_request config
                                  (booking_payload utc_time user_name email user_timezone n)
                      in (create_booking_reply E now repr (make_request_outcome (remote req))
                            start_time_iso user_name email title user_timezone,
                          [req]))))"

subsection \<open>\<^verbatim>\<open>cancel_booking\<close>\<close>

text \<open>The reply when no booking matches the requested time.\<close>

definition no_booking_found ::
  "env \<Rightarrow> int \<Rightarrow> (pyval \<Rightarrow> string) \<Rightarrow> pyval list \<Rightarrow> string \<Rightarrow> string \<Rightarrow> string \<Rightarrow> exn + string" where
  "no_booking_found E now repr accepted_bookings date time user_timezone =
     (case format_booking_list E now repr accepted_bookings user_timezone 5 of
        Inl e \<Rightarrow> Inl e
      | Inr booking_list \<Rightarrow>
          Inr (''No booking found for '' @ date @ '' at '' @ time @ '' ('' @ user_timezone
               @ ''). Your upcoming accepted bookings:'' @ newline
               @ (if booking_list = [] then ''None found'' else join newline booking_list)))"

text \<open>What \<^verbatim>\<open>cancel_booking\<close> does with the response to the cancellation.\<close>

definition cancel_booking_reply ::
  "env \<Rightarrow> int \<Rightarrow> (pyval \<Rightarrow> string) \<Rightarrow> ApiResponse \<Rightarrow> pyval \<Rightarrow> pyval \<Rightarrow> pyval \<Rightarrow> string
     \<Rightarrow> exn + string" where
  "cancel_booking_reply E now repr cancel_response matching_booking booking_uid booking_title
       user_timezone =
     (if \<not> success cancel_response then
        Inr (''Error: Could not cancel the booking. '' @ str_optional (error cancel_response))
      else
        (case payload_failure repr (data cancel_response) of
           Inl e \<Rightarrow> Inl e
         | Inr (Some error_msg) \<Rightarrow>
             Inr (''Error: Could not cancel the booking. API response: '' @ error_msg)
         | Inr None \<Rightarrow>
             (case (case py_getitem matching_booking ''start'' of
                      Inl e \<Rightarrow> Inl e
                    | Inr start \<Rightarrow> convert_utc_value_to_user_timezone E now start user_timezone) of
                Inl e \<Rightarrow>
                  Inr (''Success! Booking '' @ quote @ py_str repr booking_title @ quote
                       @ '' has been cancelled. Booking UID: '' @ py_str repr booking_uid)
              | Inr booking_dt_user_tz \<Rightarrow>
                  Inr (''Success! Booking '' @ quote @ py_str repr booking_title @ quote
                       @ '' scheduled for ''
                       @ format_for_display booking_dt_user_tz user_timezone (FormatEnum FRIENDLY)
                       @ '' ('' @ user_timezone @ '') has been cancelled. Booking UID: ''
                       @ py_str repr booking_uid))))"

text \<open>The part of \<^verbatim>\<open>cancel_booking\<close> after a booking has matched.\<close>

definition cancel_matched ::
  "CalApiConfig \<Rightarrow> env \<Rightarrow> (request \<Rightarrow> http_outcome) \<Rightarrow> int \<Rightarrow> (pyval \<Rightarrow> string)
     \<Rightarrow> pyval \<Rightarrow> string \<Rightarrow> (exn + string) \<times> request list" where
  "cancel_matched config E remote now repr matching_booking user_timezone =
     (case py_get matching_booking ''uid'' PNone of
        Inl e \<Rightarrow> (Inl e, [])
      | Inr booking_uid \<Rightarrow>
          (case py_get matching_booking ''title'' (PStr ''Untitled'') of
             Inl e \<Rightarrow> (Inl e, [])
           | Inr booking_title \<Rightarrow>
               if \<not> truthy booking_uid then (Inr UID_NOT_FOUND, [])
               else
                 let req = cancel_booking_request config (py_str repr booking_uid)
                             ''User requested cancellation via chatbot''
                 in (cancel_booking_reply E now repr (make_request_outcome (remote req))
                       matching_booking booking_uid booking_title user_timezone,
                     [req])))"

definition cancel_booking ::
  "CalApiConfig \<Rightarrow> env \<Rightarrow> (request \<Rightarrow> http_outcome) \<Rightarrow> int \<Rightarrow> (pyval \<Rightarrow> string)
     \<Rightarrow> string \<Rightarrow> string \<Rightarrow> string \<Rightarrow> string \<Rightarrow> (exn + string) \<times> request list" where
  "cancel_booking config E remote now repr email date time user_timezone =
     (let fetch = get_bookings_request config email
      in case get_upcoming_accepted_bookings config remote now repr email of
           Inl e \<Rightarrow> (Inl e, [fetch])
         | Inr (accepted, error_msg) \<Rightarrow>
             if error_msg \<noteq> None \<and> error_msg \<noteq> Some [] then
               (Inr (''Error: Could not retrieve bookings. '' @ str_optional error_msg), [fetch])
             else
               (case accepted of
                  None \<Rightarrow> (Inr NONE_FOUND, [fetch])
                | Some accepted_bookings \<Rightarrow>
                    if accepted_bookings = [] then (Inr NONE_FOUND, [fetch])
                    else
                      (case find_booking_by_time E now accepted_bookings date time
                              user_timezone of
                         None \<Rightarrow>
                           (no_booking_found E now repr accepted_bookings date time
                              user_timezone,
                            [fetch])
                       | Some matching_booking \<Rightarrow>
                           if \<not> truthy matching_booking then
                             (no_booking_found E now repr accepted_bookings date time
                                user_timezone,
                              [fetch])
                           else
                             (case cancel_matched config E remote now repr matching_booking
                                     user_timezone of
                                (result, sent) \<Rightarrow> (result, fetch # sent)))))"

section \<open>Predicates used in the statements\<close>

text \<open>
  The test \<^verbatim>\<open>booking.get('status', '').lower() == "accepted"\<close>, false when the
  expression raises.
\<close>

definition status_is_accepted :: "pyval \<Rightarrow> bool" where
  "status_is_accepted booking =
     (case py_get booking ''status'' (PStr []) of
        Inl e \<Rightarrow> False
      | Inr st \<Rightarrow> (case py_lower st of Inl e \<Rightarrow> False | Inr l \<Rightarrow> l = ACCEPTED))"

text \<open>A booking is a dictionary whose status, when present, is a string.\<close>

definition has_text_status :: "pyval \<Rightarrow> bool" where
  "has_text_status booking =
     (case py_get booking ''status'' (PStr []) of
        Inl e \<Rightarrow> False
      | Inr st \<Rightarrow> (case st of PStr s \<Rightarrow> True | _ \<Rightarrow> False))"

text \<open>
  A well-formed booking: a dictionary whose status is a string or missing, and whose
  start is a string, or missing, or a value that counts as false.
\<close>

definition well_formed_booking :: "pyval \<Rightarrow> bool" where
  "well_formed_booking booking =
     (has_text_status booking \<and>
      (case py_get booking ''start'' (PStr []) of
         Inl e \<Rightarrow> False
       | Inr start \<Rightarrow> (case start of PStr s \<Rightarrow> True | _ \<Rightarrow> \<not> truthy start)))"

text \<open>
  The bookings the helper keeps, in the words of the amended claim: accepted, with a
  start that is not empty and either does not parse, or parses without an offset (it
  cannot be compared with the current instant), or is strictly after the current instant.
\<close>

definition upcoming_accepted :: "int \<Rightarrow> pyval \<Rightarrow> bool" where
  "upcoming_accepted now booking =
     (status_is_accepted booking \<and>
      (case py_get booking ''start'' (PStr []) of
         Inl e \<Rightarrow> False
       | Inr start \<Rightarrow>
           truthy start \<and>
           (case parse_utc_datetime_value start of
              Inl e \<Rightarrow> True
            | Inr (Naive w) \<Rightarrow> True
            | Inr (Aware w off) \<Rightarrow> now < w - off)))"

text \<open>
  The query's UTC equivalent, in the words of the claim and from the libraries alone:
  the reading that \<^verbatim>\<open>strptime\<close> gives for the date and the time, taken in the named
  zone as \<^verbatim>\<open>pytz\<close> localises it, as an instant of UTC. There is none when the date
  and time are not read, when the zone is unknown, or when localising fails or leaves
  the range of datetimes.
\<close>

definition query_utc_equivalent :: "env \<Rightarrow> string \<Rightarrow> string \<Rightarrow> string \<Rightarrow> int option" where
  "query_utc_equivalent E target_date target_time tz =
     (case strptime (target_date @ '' '' @ target_time) of
        Inl e \<Rightarrow> None
      | Inr n \<Rightarrow>
          if tz = ''UTC'' then Some n
          else
            (case tzdb E tz of
               None \<Rightarrow> None
             | Some z \<Rightarrow>
                 (case localize z n of
                    Inr (Aware v off) \<Rightarrow> if in_range (v - off) then Some (v - off) else None
                  | _ \<Rightarrow> None)))"

text \<open>
  A wall-clock reading exists in a zone when \<^verbatim>\<open>localize\<close> finds an offset for it,
  that is, when it is not skipped by a transition.
\<close>

definition wall_clock_exists :: "zone \<Rightarrow> int \<Rightarrow> bool" where
  "wall_clock_exists z w =
     (case z of
        DstTz trs \<Rightarrow> (case possible_loc_dt trs w of Inl e \<Rightarrow> False | Inr cands \<Rightarrow> cands \<noteq> [])
      | _ \<Rightarrow> True)"

section \<open>Example data\<close>

text \<open>
  An excerpt of the zone America/New\_York around 2025: standard time (UTC-5), daylight
  time (UTC-4) from 2025-03-09 07:00 UTC, standard time again from 2025-11-02 06:00 UTC.
\<close>

definition new_york :: zone where
  "new_york = DstTz [(0, - 18000000000, 0),
                     (63877100400000000, - 14400000000, 3600000000),
                     (63897660000000000, - 18000000000, 0)]"

fun example_tzdb :: "string \<Rightarrow> zone option" where
  "example_tzdb name = (if name = ''America/New_York'' then Some new_york else None)"

text \<open>
  A system whose local timezone is UTC: the offset is zero, and the lookup fails within
  the first day of year 1, where the instant one day earlier lies in year 0.
\<close>

fun utc_local_offset :: "int \<Rightarrow> exn + int" where
  "utc_local_offset w =
     (if w < US_PER_DAY then Inl (ValueError ''year 0 is out of range'') else Inr 0)"

definition example_env :: env where
  "example_env = \<lparr> tzdb = example_tzdb, local_offset = utc_local_offset \<rparr>"

definition example_config :: CalApiConfig where
  "example_config = \<lparr> api_key = ''cal_test_key'', base_url = ''https://api.cal.com/v2'',
     event_type_id = Some ''123'', user_email = None \<rparr>"

fun example_repr :: "pyval \<Rightarrow> string" where
  "example_repr v = ''<value>''"

text \<open>2025-01-01 00:00:00 UTC.\<close>

definition example_now :: int where
  "example_now = 63871286400000000"

definition meeting :: pyval where
  "meeting = PDict [(''status'', PStr ''Accepted''), (''title'', PStr ''Review''),
                    (''uid'', PStr ''123''), (''start'', PStr ''2025-07-24T18:00:00.347Z'')]"

definition meeting_late :: pyval where
  "meeting_late = PDict [(''status'', PStr ''accepted''), (''title'', PStr ''Late''),
                         (''uid'', PStr ''124''), (''start'', PStr ''2025-07-24T18:01:00.000Z'')]"

definition meeting_early :: pyval where
  "meeting_early = PDict [(''status'', PStr ''accepted''), (''title'', PStr ''Early''),
                          (''uid'', PStr ''125''), (''start'', PStr ''2025-07-24T17:59:00.000Z'')]"

definition meeting_pending :: pyval where
  "meeting_pending = PDict [(''status'', PStr ''pending''), (''title'', PStr ''Maybe''),
                            (''uid'', PStr ''126''), (''start'', PStr ''2025-07-24T18:00:00.000Z'')]"

definition meeting_past :: pyval where
  "meeting_past = PDict [(''status'', PStr ''accepted''), (''title'', PStr ''Done''),
                         (''uid'', PStr ''127''), (''start'', PStr ''2020-01-01T00:00:00.000Z'')]"

definition meeting_unparseable :: pyval where
  "meeting_unparseable = PDict [(''status'', PStr ''accepted''), (''title'', PStr ''Odd''),
                                (''uid'', PStr ''128''), (''start'', PStr ''invalid-datetime'')]"

definition meeting_no_start :: pyval where
  "meeting_no_start = PDict [(''status'', PStr ''accepted''), (''title'', PStr ''Blank''),
                             (''uid'', PStr ''129''), (''start'', PStr [])]"

definition meeting_naive_past :: pyval where
  "meeting_naive_past = PDict [(''status'', PStr ''accepted''), (''title'', PStr ''Old''),
                               (''uid'', PStr ''130''), (''start'', PStr ''2020-01-01T00:00:00'')]"

definition meeting_past_basic :: pyval where
  "meeting_past_basic = PDict [(''status'', PStr ''accepted''), (''title'', PStr ''Gone''),
                               (''uid'', PStr ''131''), (''start'', PStr ''20200101T000000Z'')]"

definition meeting_local :: pyval where
  "meeting_local = PDict [(''status'', PStr ''accepted''), (''title'', PStr ''Local''),
                          (''uid'', PStr ''132''), (''start'', PStr ''2025-07-24T14:00:30-04:00'')]"

definition meeting_offset_seconds :: pyval where
  "meeting_offset_seconds =
     PDict [(''status'', PStr ''accepted''), (''title'', PStr ''Skewed''),
            (''uid'', PStr ''133''), (''start'', PStr ''2025-07-24T18:00:45+00:00:30'')]"

definition meeting_null_status :: pyval where
  "meeting_null_status = PDict [(''status'', PNone), (''title'', PStr ''Draft''),
                                (''uid'', PStr ''134''), (''start'', PStr ''2025-07-24T18:00:00.000Z'')]"

definition meeting_no_uid :: pyval where
  "meeting_no_uid = PDict [(''status'', PStr ''accepted''), (''title'', PStr ''Orphan''),
                           (''start'', PStr ''2025-07-24T18:00:00.000Z'')]"

definition bookings_payload :: "pyval list \<Rightarrow> pyval" where
  "bookings_payload bookings = PDict [(''status'', PStr ''success''), (''data'', PList bookings)]"

fun remote_mixed :: "request \<Rightarrow> http_outcome" where
  "remote_mixed req =
     HttpResponse 200 []
       (JsonOk (bookings_payload [meeting, meeting_past, meeting_unparseable, meeting_pending]))"

fun remote_upcoming :: "request \<Rightarrow> http_outcome" where
  "remote_upcoming req =
     HttpResponse 200 []
       (JsonOk (bookings_payload
          [meeting, meeting_past, meeting_past_basic, meeting_unparseable, meeting_pending]))"

fun remote_odd_starts :: "request \<Rightarrow> http_outcome" where
  "remote_odd_starts req =
     HttpResponse 200 [] (JsonOk (bookings_payload [meeting_no_start, meeting_naive_past]))"

fun remote_no_uid :: "request \<Rightarrow> http_outcome" where
  "remote_no_uid req = HttpResponse 200 [] (JsonOk (bookings_payload [meeting_no_uid]))"

fun remote_null :: "request \<Rightarrow> http_outcome" where
  "remote_null req = HttpResponse 200 ''null'' (JsonOk PNone)"

fun remote_down :: "request \<Rightarrow> http_outcome" where
  "remote_down req = RequestException ''Connection refused''"


section \<open>Facts about the matcher\<close>

lemma booking_matches_accepted:
  "booking_matches target b = Inr True \<Longrightarrow> status_is_accepted b"
  by (auto simp: booking_matches_def status_is_accepted_def split: sum.splits if_splits)

lemma booking_matches_truthy:
  "booking_matches target b = Inr True \<Longrightarrow> truthy b"
  by (cases b)
     (auto simp: booking_matches_def dict_get_def lower_def ACCEPTED_def
           split: sum.splits if_splits option.splits)

lemma scan_bookings_Some:
  "scan_bookings target bs = Inr (Some b) \<Longrightarrow> b \<in> set bs \<and> booking_matches target b = Inr True"
  by (induction bs) (auto split: sum.splits if_splits)

section \<open>The display format\<close>

text \<open>
  Claim C10. For every datetime and every format kind, the output of
  \<^verbatim>\<open>format_for_display\<close> does not depend on its \<^verbatim>\<open>user_timezone\<close> argument: two
  calls that differ only in the timezone string return the same text.
\<close>

theorem format_for_display_ignores_timezone:
  "format_for_display dt tz1 format_type = format_for_display dt tz2 format_type"
  by (simp add: format_for_display_def)

section \<open>The response envelope\<close>

text \<open>
  Claim C8, as amended. Every \<^verbatim>\<open>ApiResponse\<close> that \<^verbatim>\<open>_make_request\<close> produces
  satisfies: when \<open>success\<close> is true, the error is absent, the status code is present
  and the payload is whatever the body decoded to; when \<open>success\<close> is false, an error
  message is present and the payload is absent.
\<close>

theorem make_request_envelope:
  "(success (make_request config remote method endpoint api_version params body)
      \<longrightarrow> error (make_request config remote method endpoint api_version params body) = None
        \<and> status_code (make_request config remote method endpoint api_version params body) \<noteq> None
        \<and> (\<exists>code txt. remote (build_request config method endpoint api_version params body)
              = HttpResponse code txt
                  (JsonOk (data (make_request config remote method endpoint api_version params body)))))
   \<and> (\<not> success (make_request config remote method endpoint api_version params body)
      \<longrightarrow> error (make_request config remote method endpoint api_version params body) \<noteq> None
        \<and> data (make_request config remote method endpoint api_version params body) = PNone)"
  by (auto simp: make_request_def make_request_outcome_def
           split: http_outcome.splits json_outcome.splits)

text \<open>
  Both branches at concrete answers of the remote side: a response with status 200 and
  a JSON object, and a refused connection.
\<close>

theorem make_request_envelope_witness:
  "success (make_request example_config remote_mixed ''GET'' ''bookings'' None [] None)
   \<and> error (make_request example_config remote_mixed ''GET'' ''bookings'' None [] None) = None
   \<and> status_code (make_request example_config remote_mixed ''GET'' ''bookings'' None [] None)
       = Some 200
   \<and> \<not> success (make_request example_config remote_down ''GET'' ''bookings'' None [] None)
   \<and> error (make_request example_config remote_down ''GET'' ''bookings'' None [] None)
       = Some ''Connection refused''
   \<and> data (make_request example_config remote_down ''GET'' ''bookings'' None [] None) = PNone"
proof -
  have s: "success (make_request example_config remote_mixed ''GET'' ''bookings'' None [] None)"
    by (simp add: make_request_def make_request_outcome_def)
  have f: "\<not> success (make_request example_config remote_down ''GET'' ''bookings'' None [] None)"
    by (simp add: make_request_def make_request_outcome_def)
  from s f
    make_request_envelope [of example_config remote_mixed "''GET''" "''bookings''" None "[]" None]
    make_request_envelope [of example_config remote_down "''GET''" "''bookings''" None "[]" None]
  show ?thesis by (simp add: make_request_def make_request_outcome_def)
qed

text \<open>
  The claim as stated also asks for a payload whenever \<open>success\<close> is true. A response
  with status 200 whose body is the JSON text \<^verbatim>\<open>null\<close> decodes to \<^verbatim>\<open>None\<close>:
  \<open>success\<close> is true and the payload is absent.
\<close>

theorem make_request_null_payload:
  "success (make_request example_config remote_null ''GET'' ''bookings'' None [] None)
   \<and> data (make_request example_config remote_null ''GET'' ''bookings'' None [] None) = PNone"
  by (simp add: make_request_def make_request_outcome_def)

section \<open>Only accepted bookings are matched\<close>

text \<open>
  Claim C7. For every list of bookings and every query, a booking that
  \<^verbatim>\<open>find_booking_by_time\<close> returns is one of the list and its status, lowercased, is
  \<^verbatim>\<open>"accepted"\<close>; a booking with any other status is never returned, whatever its
  start time.
\<close>

theorem find_booking_by_time_accepted_only:
  "find_booking_by_time E now bookings target_date target_time user_timezone = Some b
   \<Longrightarrow> b \<in> set bookings \<and> status_is_accepted b"
  by (auto simp: find_booking_by_time_def split: sum.splits
           dest: scan_bookings_Some booking_matches_accepted)

text \<open>
  A pending booking at 18:00 stands before an accepted one at 18:00:00.347; the query
  for 18:00 returns the accepted one.
\<close>

theorem find_booking_by_time_accepted_only_witness:
  "find_booking_by_time example_env example_now [meeting_pending, meeting]
       ''2025-07-24'' ''18:00'' ''UTC'' = Some meeting
   \<and> meeting \<in> set [meeting_pending, meeting] \<and> status_is_accepted meeting"
proof -
  have h: "find_booking_by_time example_env example_now [meeting_pending, meeting]
             ''2025-07-24'' ''18:00'' ''UTC'' = Some meeting"
    by code_simp
  from find_booking_by_time_accepted_only [OF h] h show ?thesis by simp
qed

section \<open>The upcoming accepted bookings\<close>

lemma keep_booking_eq:
  "has_text_status b \<Longrightarrow> keep_booking now b = Inr (upcoming_accepted now b)"
  by (cases b)
     (auto simp: keep_booking_def upcoming_accepted_def has_text_status_def status_is_accepted_def
                 utc_now_def
           split: sum.splits pyval.splits pydatetime.splits if_splits)

lemma filter_upcoming_eq:
  "list_all has_text_status bs
   \<Longrightarrow> filter_upcoming now bs = Inr (filter (upcoming_accepted now) bs)"
  by (induction bs) (auto simp: keep_booking_eq)

text \<open>
  Claim C3, as amended. When the fetch succeeds and its payload reports success with a
  list of bookings (dictionaries whose status is a string),
  \<^verbatim>\<open>_get_upcoming_accepted_bookings\<close> keeps, in order, exactly the bookings whose
  status is \<^verbatim>\<open>"accepted"\<close> (case-insensitive) and whose start is not empty and is
  strictly after the current UTC instant, or does not parse, or carries no UTC offset
  (so that it cannot be compared with the current instant). An accepted booking whose
  start carries an offset and is at or before the current instant is excluded, and so
  is one whose start is missing or empty.
\<close>

theorem upcoming_accepted_bookings_kept:
  assumes "remote (get_bookings_request config email)
             = HttpResponse code txt (JsonOk (PDict payload))"
      and "code < 400"
      and "dict_get payload ''status'' PNone = PStr ''success''"
      and "dict_get payload ''data'' (PList []) = PList bookings"
      and "list_all has_text_status bookings"
  shows "get_upcoming_accepted_bookings config remote now repr email
           = Inr (Some (filter (upcoming_accepted now) bookings), None)"
proof -
  have ne: "payload \<noteq> []"
    using assms(3) by (auto simp: dict_get_def)
  show ?thesis
    using assms ne
    by (simp add: get_upcoming_accepted_bookings_def upcoming_of_response_def make_request_def
          make_request_outcome_def get_bookings_request_def payload_failure_def
          filter_upcoming_eq)
qed

text \<open>
  With the clock at 2025-01-01: of an accepted booking in July 2025, an accepted one in
  2020, an accepted one in 2020 whose start is written \<^verbatim>\<open>20200101T000000Z\<close>, an
  accepted one with the start \<^verbatim>\<open>invalid-datetime\<close> and a pending one, the first and
  the fourth are kept.
\<close>

theorem upcoming_accepted_bookings_kept_witness:
  "get_upcoming_accepted_bookings example_config remote_upcoming example_now example_repr
       ''ann@example.com'' = Inr (Some [meeting, meeting_unparseable], None)"
proof -
  have 1: "remote_upcoming (get_bookings_request example_config ''ann@example.com'')
        = HttpResponse 200 [] (JsonOk (PDict [(''status'', PStr ''success''),
            (''data'', PList [meeting, meeting_past, meeting_past_basic, meeting_unparseable,
                              meeting_pending])]))"
    by (simp add: bookings_payload_def)
  have 2: "(200::int) < 400" by simp
  have 3: "dict_get [(''status'', PStr ''success''),
            (''data'', PList [meeting, meeting_past, meeting_past_basic, meeting_unparseable,
                              meeting_pending])]
            ''status'' PNone = PStr ''success''"
    by (simp add: dict_get_def)
  have 4: "dict_get [(''status'', PStr ''success''),
            (''data'', PList [meeting, meeting_past, meeting_past_basic, meeting_unparseable,
                              meeting_pending])]
            ''data'' (PList [])
           = PList [meeting, meeting_past, meeting_past_basic, meeting_unparseable,
                    meeting_pending]"
    by (simp add: dict_get_def)
  have 5: "list_all has_text_status
             [meeting, meeting_past, meeting_past_basic, meeting_unparseable, meeting_pending]"
    by code_simp
  have 6: "filter (upcoming_accepted example_now)
             [meeting, meeting_past, meeting_past_basic, meeting_unparseable, meeting_pending]
          = [meeting, meeting_unparseable]"
    by code_simp
  from upcoming_accepted_bookings_kept [where remote = remote_upcoming
      and config = example_config and email = "''ann@example.com''" and now = example_now
      and repr = example_repr, OF 1 2 3 4 5] 6
  show ?thesis by simp
qed

text \<open>
  The claim as stated fails at two accepted bookings, with the clock at 2025-01-01. One
  has an empty start, which does not parse: it is dropped, not included. The other
  starts at \<^verbatim>\<open>2020-01-01T00:00:00\<close>, written without an offset: it lies before the
  current instant and is kept.
\<close>

theorem upcoming_accepted_bookings_odd_starts:
  "get_upcoming_accepted_bookings example_config remote_odd_starts example_now example_repr
       ''ann@example.com'' = Inr (Some [meeting_naive_past], None)
   \<and> status_is_accepted meeting_no_start
   \<and> py_get meeting_no_start ''start'' (PStr []) = Inr (PStr [])
   \<and> parse_utc_datetime_string [] = Inl (ValueError ''Invalid UTC datetime format: '')
   \<and> status_is_accepted meeting_naive_past
   \<and> py_get meeting_naive_past ''start'' (PStr []) = Inr (PStr ''2020-01-01T00:00:00'')
   \<and> parse_utc_datetime_string ''2020-01-01T00:00:00'' = Inr (Naive 63713433600000000)
   \<and> 63713433600000000 < example_now"
  by code_simp

section \<open>Cancelling a booking without uid\<close>

lemma no_booking_found_not_uid_error:
  "no_booking_found E now repr bookings date time tz \<noteq> Inr UID_NOT_FOUND"
  by (auto simp: no_booking_found_def UID_NOT_FOUND_def split: sum.splits)

text \<open>
  Claim C9. In \<^verbatim>\<open>cancel_booking\<close>, when the matched booking has no uid (the key is
  missing or its value is empty), the tool returns the error text
  \<^verbatim>\<open>Error: Booking UID not found in booking data.\<close>; the only request it has sent is
  the GET that fetched the bookings, so no cancellation is issued; and the text is
  different from every "no booking found" reply.
\<close>

theorem cancel_booking_missing_uid:
  assumes "get_upcoming_accepted_bookings config remote now repr email
             = Inr (Some bookings, None)"
      and "find_booking_by_time E now bookings date time tz = Some b"
      and "py_get b ''uid'' PNone = Inr uid"
      and "\<not> truthy uid"
  shows "cancel_booking config E remote now repr email date time tz
           = (Inr UID_NOT_FOUND, [get_bookings_request config email])
         \<and> req_method (get_bookings_request config email) = ''GET''
         \<and> (\<forall>E' now' repr' bookings' date' time' tz'.
               no_booking_found E' now' repr' bookings' date' time' tz' \<noteq> Inr UID_NOT_FOUND)"
proof -
  from assms(2) have m: "b \<in> set bookings" "booking_matches
      (case convert_user_time_to_utc E now date time tz of Inr t \<Rightarrow> t) b = Inr True"
    by (auto simp: find_booking_by_time_def split: sum.splits dest: scan_bookings_Some)
  then have t: "truthy b" and ne: "bookings \<noteq> []"
    by (auto dest: booking_matches_truthy)
  obtain kvs where b: "b = PDict kvs"
    using assms(3) by (cases b) auto
  have "cancel_matched config E remote now repr b tz = (Inr UID_NOT_FOUND, [])"
    using assms(3,4) b by (simp add: cancel_matched_def split: sum.splits)
  then have "cancel_booking config E remote now repr email date time tz
           = (Inr UID_NOT_FOUND, [get_bookings_request config email])"
    using assms(1,2) t ne by (simp add: cancel_booking_def)
  then show ?thesis
    by (simp add: no_booking_found_not_uid_error get_bookings_request_def build_request_def)
qed

text \<open>
  The only upcoming booking is accepted, starts at 18:00 and has no uid; cancelling the
  18:00 meeting gives the error and sends nothing but the fetch.
\<close>

theorem cancel_booking_missing_uid_witness:
  "cancel_booking example_config example_env remote_no_uid example_now example_repr
       ''ann@example.com'' ''2025-07-24'' ''18:00'' ''UTC''
     = (Inr UID_NOT_FOUND, [get_bookings_request example_config ''ann@example.com''])"
proof -
  have 1: "get_upcoming_accepted_bookings example_config remote_no_uid example_now example_repr
             ''ann@example.com'' = Inr (Some [meeting_no_uid], None)"
    by code_simp
  have 2: "find_booking_by_time example_env example_now [meeting_no_uid]
             ''2025-07-24'' ''18:00'' ''UTC'' = Some meeting_no_uid"
    by code_simp
  have 3: "py_get meeting_no_uid ''uid'' PNone = Inr PNone"
    by code_simp
  have 4: "\<not> truthy PNone" by simp
  from cancel_booking_missing_uid [OF 1 2 3 4] show ?thesis by simp
qed

section \<open>Matching to the minute\<close>

lemma truncate_wall_eq_iff:
  assumes "off mod US_PER_MINUTE = 0"
  shows "(truncate_wall w - off = truncate_wall t)
         = ((w - off) div US_PER_MINUTE = t div US_PER_MINUTE)"
proof -
  have m: "(w - off) mod US_PER_MINUTE = w mod US_PER_MINUTE"
    using assms by (metis diff_zero mod_diff_right_eq)
  have "truncate_wall w - off = US_PER_MINUTE * ((w - off) div US_PER_MINUTE)"
    unfolding truncate_wall_def using m by (simp add: algebra_simps minus_mod_eq_mult_div [symmetric])
  moreover have "truncate_wall t = US_PER_MINUTE * (t div US_PER_MINUTE)"
    unfolding truncate_wall_def by (simp add: minus_mod_eq_mult_div)
  ultimately show ?thesis
    by (simp add: US_PER_MINUTE_def)
qed

lemma mk_wall_error:
  "mk_wall y m d H M S us = Inl e \<Longrightarrow> \<exists>msg. e = ValueError msg"
  by (auto simp: mk_wall_def split: if_splits)

lemma build_datetime_error:
  "build_datetime y m d H M S us tz = Inl e \<Longrightarrow> \<exists>msg. e = ValueError msg"
  by (auto simp: build_datetime_def split: option.splits sum.splits if_splits)
     (blast dest: mk_wall_error)+

lemma fromisoformat_error:
  "fromisoformat s = Inl e \<Longrightarrow> \<exists>msg. e = ValueError msg"
  by (auto simp: fromisoformat_def invalid_isoformat_def Let_def
           split: option.splits if_splits)
     (blast dest: build_datetime_error)+

lemma parse_utc_datetime_string_error:
  "parse_utc_datetime_string s = Inl e \<Longrightarrow> value_or_type_error e"
  by (auto simp: parse_utc_datetime_string_def split: sum.splits exn.splits
           dest: fromisoformat_error)

lemma parse_utc_datetime_string_Nil:
  "parse_utc_datetime_string [] = Inl (ValueError ''Invalid UTC datetime format: '')"
  by code_simp

lemma parse_utc_datetime_string_empty:
  "parse_utc_datetime_string [] \<noteq> Inr dt"
  by (simp add: parse_utc_datetime_string_Nil)

lemma booking_matches_truncated:
  assumes "status_is_accepted b"
      and "py_get b ''start'' (PStr []) = Inr (PStr s)"
      and "parse_utc_datetime_string s = Inr (Aware w off)"
  shows "booking_matches (Aware t 0) b = Inr (truncate_wall w - off = truncate_wall t)"
proof -
  have ne: "s \<noteq> []"
    using assms(3) parse_utc_datetime_string_empty by auto
  show ?thesis
    using assms ne
    by (cases b)
       (auto simp: booking_matches_def status_is_accepted_def split: sum.splits)
qed

lemma truncate_wall_minute_apart:
  assumes "w - off = t + US_PER_MINUTE \<or> w - off = t - US_PER_MINUTE"
  shows "truncate_wall w - off \<noteq> truncate_wall t"
proof -
  define M where "M = US_PER_MINUTE"
  define a where "a = w mod M"
  define c where "c = t mod M"
  have M: "0 < M" by (simp add: M_def US_PER_MINUTE_def)
  have a: "0 \<le> a \<and> a < M" using M by (simp add: a_def)
  have c: "0 \<le> c \<and> c < M" using M by (simp add: c_def)
  have "w - a - off \<noteq> t - c"
    using assms a c unfolding M_def [symmetric] by linarith
  then show ?thesis
    by (simp add: truncate_wall_def a_def c_def M_def)
qed

lemma convert_user_time_to_utc_equivalent:
  assumes "query_utc_equivalent E target_date target_time tz = Some t"
  shows "convert_user_time_to_utc E now target_date target_time tz = Inr (Aware t 0)"
proof (cases "strptime (target_date @ '' '' @ target_time)")
  case (Inl e)
  with assms show ?thesis by (simp add: query_utc_equivalent_def)
next
  case n: (Inr n)
  show ?thesis
  proof (cases "tz = ''UTC''")
    case True
    with assms n show ?thesis
      by (simp add: query_utc_equivalent_def convert_user_time_to_utc_def)
  next
    case False
    with assms n obtain z v off where z: "tzdb E tz = Some z"
      and l: "localize z n = Inr (Aware v off)" and r: "in_range (v - off)" and t: "t = v - off"
      by (auto simp: query_utc_equivalent_def
               split: option.splits sum.splits pydatetime.splits if_splits)
    show ?thesis
      using n False z l r t
      by (simp add: convert_user_time_to_utc_def pytz_timezone_def wall_add_def)
  qed
qed

lemma well_formed_booking_total:
  "well_formed_booking b \<Longrightarrow> \<exists>r. booking_matches target b = Inr r"
  by (cases b)
     (auto simp: well_formed_booking_def has_text_status_def booking_matches_def
           split: sum.splits pyval.splits if_splits
           dest: parse_utc_datetime_string_error)

lemma scan_bookings_finds:
  "list_all well_formed_booking pre \<Longrightarrow> booking_matches target b = Inr True
   \<Longrightarrow> \<exists>b'. scan_bookings target (pre @ b # post) = Inr (Some b')"
proof (induction pre)
  case Nil
  then show ?case by simp
next
  case (Cons p pre)
  then obtain r where "booking_matches target p = Inr r"
    using well_formed_booking_total by fastforce
  with Cons show ?case by simp
qed

lemma find_booking_by_time_unmatched:
  assumes "convert_user_time_to_utc E now target_date target_time tz = Inr (Aware t 0)"
      and "py_get b ''start'' (PStr []) = Inr (PStr s)"
      and "parse_utc_datetime_string s = Inr (Aware w off)"
      and "truncate_wall w - off \<noteq> truncate_wall t"
  shows "find_booking_by_time E now bookings target_date target_time tz \<noteq> Some b"
proof
  assume "find_booking_by_time E now bookings target_date target_time tz = Some b"
  then have bm: "booking_matches (Aware t 0) b = Inr True"
    using assms(1)
    by (auto simp: find_booking_by_time_def split: sum.splits dest: scan_bookings_Some)
  then have "status_is_accepted b"
    by (rule booking_matches_accepted)
  with bm show False
    using booking_matches_truncated [OF _ assms(2,3), of t] assms(4) by simp
qed

text \<open>
  Claim C1, as amended. Let the query have a UTC equivalent \<open>t\<close>: its date and time are
  read by \<^verbatim>\<open>strptime\<close>, its timezone is \<^verbatim>\<open>UTC\<close> or a name the timezone database
  knows, and the reading localised in that zone is an instant of UTC within the range of
  datetimes. Let a booking's start parse to a datetime with wall clock \<open>w\<close> and UTC
  offset \<open>off\<close>, so that its UTC start is \<open>w - off\<close>. The matcher truncates the wall
  clock of the start, in the start's own offset, and the UTC equivalent to the minute and
  compares the two instants.

  \<^item> If the booking is accepted and the truncated instants are equal, the matcher
    returns it from the list that holds just this booking, and returns some match from
    every list in which only well-formed bookings stand before it.
  \<^item> If the truncated instants differ, the booking is returned from no list.
  \<^item> For an offset of whole minutes (the API's \<^verbatim>\<open>Z\<close> strings have offset zero) the
    truncated instants are equal exactly when the UTC start and \<open>t\<close> lie in the same
    minute, that is, differ in seconds and microseconds only.
  \<^item> A booking whose UTC start is exactly one minute earlier or later than \<open>t\<close> is
    returned from no list, whatever its offset.
\<close>

theorem find_booking_by_time_minute_precision:
  assumes "query_utc_equivalent E target_date target_time tz = Some t"
      and "py_get b ''start'' (PStr []) = Inr (PStr s)"
      and "parse_utc_datetime_string s = Inr (Aware w off)"
  shows "(status_is_accepted b \<and> truncate_wall w - off = truncate_wall t
            \<longrightarrow> find_booking_by_time E now [b] target_date target_time tz = Some b
              \<and> (\<forall>pre post. list_all well_formed_booking pre
                    \<longrightarrow> find_booking_by_time E now (pre @ b # post) target_date target_time tz
                          \<noteq> None))
         \<and> (truncate_wall w - off \<noteq> truncate_wall t
            \<longrightarrow> (\<forall>bookings. find_booking_by_time E now bookings target_date target_time tz
                    \<noteq> Some b))
         \<and> (off mod US_PER_MINUTE = 0
            \<longrightarrow> (truncate_wall w - off = truncate_wall t)
                  = ((w - off) div US_PER_MINUTE = t div US_PER_MINUTE))
         \<and> (w - off = t + US_PER_MINUTE \<or> w - off = t - US_PER_MINUTE
            \<longrightarrow> (\<forall>bookings. find_booking_by_time E now bookings target_date target_time tz
                    \<noteq> Some b))"
proof -
  note q = convert_user_time_to_utc_equivalent [OF assms(1), of now]
  have 1: "find_booking_by_time E now [b] target_date target_time tz = Some b
           \<and> (\<forall>pre post. list_all well_formed_booking pre
                 \<longrightarrow> find_booking_by_time E now (pre @ b # post) target_date target_time tz
                       \<noteq> None)"
    if a: "status_is_accepted b \<and> truncate_wall w - off = truncate_wall t"
  proof (intro conjI allI impI)
    have m: "booking_matches (Aware t 0) b = Inr True"
      using booking_matches_truncated [OF _ assms(2,3), of t] a by simp
    show "find_booking_by_time E now [b] target_date target_time tz = Some b"
      using m q by (simp add: find_booking_by_time_def)
    fix pre post
    assume "list_all well_formed_booking pre"
    from scan_bookings_finds [OF this m, of post]
    show "find_booking_by_time E now (pre @ b # post) target_date target_time tz \<noteq> None"
      using q by (auto simp: find_booking_by_time_def)
  qed
  have 2: "\<forall>bookings. find_booking_by_time E now bookings target_date target_time tz \<noteq> Some b"
    if "truncate_wall w - off \<noteq> truncate_wall t"
    using find_booking_by_time_unmatched [OF q assms(2,3) that] by blast
  have 3: "(truncate_wall w - off = truncate_wall t)
             = ((w - off) div US_PER_MINUTE = t div US_PER_MINUTE)"
    if "off mod US_PER_MINUTE = 0"
    using that by (rule truncate_wall_eq_iff)
  have 4: "\<forall>bookings. find_booking_by_time E now bookings target_date target_time tz \<noteq> Some b"
    if "w - off = t + US_PER_MINUTE \<or> w - off = t - US_PER_MINUTE"
    using 2 [OF truncate_wall_minute_apart [OF that]] .
  show ?thesis
    using 1 2 3 4 by blast
qed

text \<open>
  The query 14:00 in New York on 2025-07-24, which is 18:00 UTC. The accepted booking
  that starts at 18:00:00.347 UTC is matched, also behind a pending booking and one that
  starts at 17:59; so is the accepted booking whose start is written as 14:00:30 with
  the offset of New York. The bookings that start at 18:01 and at 17:59 are never
  matched.
\<close>

theorem find_booking_by_time_minute_precision_witness:
  "find_booking_by_time example_env example_now [meeting]
       ''2025-07-24'' ''14:00'' ''America/New_York'' = Some meeting
   \<and> find_booking_by_time example_env example_now
         ([meeting_pending, meeting_early] @ meeting # [meeting_late])
         ''2025-07-24'' ''14:00'' ''America/New_York'' \<noteq> None
   \<and> find_booking_by_time example_env example_now [meeting_local]
       ''2025-07-24'' ''14:00'' ''America/New_York'' = Some meeting_local
   \<and> (\<forall>bookings. find_booking_by_time example_env example_now bookings
          ''2025-07-24'' ''14:00'' ''America/New_York'' \<noteq> Some meeting_late)
   \<and> (\<forall>bookings. find_booking_by_time example_env example_now bookings
          ''2025-07-24'' ''14:00'' ''America/New_York'' \<noteq> Some meeting_early)"
proof -
  have q: "query_utc_equivalent example_env ''2025-07-24'' ''14:00'' ''America/New_York''
             = Some 63888976800000000"
    by code_simp
  have z: "(0::int) mod US_PER_MINUTE = 0" by simp
  have s1: "py_get meeting ''start'' (PStr []) = Inr (PStr ''2025-07-24T18:00:00.347Z'')"
    by code_simp
  have p1: "parse_utc_datetime_string ''2025-07-24T18:00:00.347Z''
              = Inr (Aware 63888976800347000 0)"
    by code_simp
  have a1: "status_is_accepted meeting" by code_simp
  have m1: "(63888976800347000 - 0) div US_PER_MINUTE = 63888976800000000 div US_PER_MINUTE"
    by (simp add: US_PER_MINUTE_def)
  have w1: "list_all well_formed_booking [meeting_pending, meeting_early]" by code_simp
  have s2: "py_get meeting_late ''start'' (PStr []) = Inr (PStr ''2025-07-24T18:01:00.000Z'')"
    by code_simp
  have p2: "parse_utc_datetime_string ''2025-07-24T18:01:00.000Z''
              = Inr (Aware 63888976860000000 0)"
    by code_simp
  have m2: "63888976860000000 - 0 = 63888976800000000 + US_PER_MINUTE"
    by (simp add: US_PER_MINUTE_def)
  have s3: "py_get meeting_early ''start'' (PStr []) = Inr (PStr ''2025-07-24T17:59:00.000Z'')"
    by code_simp
  have p3: "parse_utc_datetime_string ''2025-07-24T17:59:00.000Z''
              = Inr (Aware 63888976740000000 0)"
    by code_simp
  have m3: "63888976740000000 - 0 = 63888976800000000 - US_PER_MINUTE"
    by (simp add: US_PER_MINUTE_def)
  have s4: "py_get meeting_local ''start'' (PStr [])
              = Inr (PStr ''2025-07-24T14:00:30-04:00'')"
    by code_simp
  have p4: "parse_utc_datetime_string ''2025-07-24T14:00:30-04:00''
              = Inr (Aware 63888962430000000 (- 14400000000))"
    by code_simp
  have a4: "status_is_accepted meeting_local" by code_simp
  have z4: "(- 14400000000 :: int) mod US_PER_MINUTE = 0"
    by (simp add: US_PER_MINUTE_def)
  have m4: "(63888962430000000 - (- 14400000000)) div US_PER_MINUTE
              = 63888976800000000 div US_PER_MINUTE"
    by (simp add: US_PER_MINUTE_def)
  note t1 = find_booking_by_time_minute_precision [OF q s1 p1, of example_now]
  note t2 = find_booking_by_time_minute_precision [OF q s2 p2, of example_now]
  note t3 = find_booking_by_time_minute_precision [OF q s3 p3, of example_now]
  note t4 = find_booking_by_time_minute_precision [OF q s4 p4, of example_now]
  have e1: "truncate_wall 63888976800347000 - 0 = truncate_wall 63888976800000000"
    using t1 z m1 by blast
  have e4: "truncate_wall 63888962430000000 - (- 14400000000) = truncate_wall 63888976800000000"
    using t4 z4 m4 by blast
  have c1: "find_booking_by_time example_env example_now [meeting]
              ''2025-07-24'' ''14:00'' ''America/New_York'' = Some meeting"
    using t1 a1 e1 by blast
  have c2: "find_booking_by_time example_env example_now
              ([meeting_pending, meeting_early] @ meeting # [meeting_late])
              ''2025-07-24'' ''14:00'' ''America/New_York'' \<noteq> None"
    using t1 a1 e1 w1 by blast
  have c3: "find_booking_by_time example_env example_now [meeting_local]
              ''2025-07-24'' ''14:00'' ''America/New_York'' = Some meeting_local"
    using t4 a4 e4 by blast
  have c4: "\<forall>bookings. find_booking_by_time example_env example_now bookings
              ''2025-07-24'' ''14:00'' ''America/New_York'' \<noteq> Some meeting_late"
    using t2 m2 by blast
  have c5: "\<forall>bookings. find_booking_by_time example_env example_now bookings
              ''2025-07-24'' ''14:00'' ''America/New_York'' \<noteq> Some meeting_early"
    using t3 m3 by blast
  show ?thesis
    using c1 c2 c3 c4 c5 by blast
qed

text \<open>
  The claim as stated fails at the query 18:00 UTC on 2025-07-24, in two ways. An
  accepted booking with the start \<^verbatim>\<open>2025-07-24T18:00:45+00:00:30\<close> begins at 18:00:15
  UTC, in the minute of the query, and is not matched: its wall clock is truncated to
  18:00 in its own offset, which is the instant 17:59:30 UTC. And the booking that
  starts at 18:00:00.347 UTC, matched when it stands alone, is not matched behind an
  entry whose status is \<^verbatim>\<open>None\<close>: the entry makes the scan raise, and the matcher
  answers \<^verbatim>\<open>None\<close>.
\<close>

theorem find_booking_by_time_same_minute_unmatched:
  "query_utc_equivalent example_env ''2025-07-24'' ''18:00'' ''UTC'' = Some 63888976800000000
   \<and> status_is_accepted meeting_offset_seconds
   \<and> py_get meeting_offset_seconds ''start'' (PStr [])
       = Inr (PStr ''2025-07-24T18:00:45+00:00:30'')
   \<and> parse_utc_datetime_string ''2025-07-24T18:00:45+00:00:30''
       = Inr (Aware 63888976845000000 30000000)
   \<and> (63888976845000000 - 30000000) div US_PER_MINUTE = 63888976800000000 div US_PER_MINUTE
   \<and> find_booking_by_time example_env example_now [meeting_offset_seconds]
         ''2025-07-24'' ''18:00'' ''UTC'' = None
   \<and> find_booking_by_time example_env example_now [meeting]
         ''2025-07-24'' ''18:00'' ''UTC'' = Some meeting
   \<and> find_booking_by_time example_env example_now [meeting_null_status, meeting]
         ''2025-07-24'' ''18:00'' ''UTC'' = None"
  by code_simp

section \<open>The range of the calendar\<close>

lemma div_step:
  fixes y k :: int
  assumes "0 < k"
  shows "y div k = (y - 1) div k + (if y mod k = 0 then 1 else 0)"
proof (cases "y mod k = 0")
  case True
  then obtain q where q: "y = k * q"
    by (metis mod_eq_0_iff_dvd dvdE)
  have "y - 1 = k * (q - 1) + (k - 1)"
    unfolding q by (simp add: algebra_simps)
  then have "(y - 1) div k = (q - 1) + (k - 1) div k"
    using assms by (metis div_mult_self4 less_irrefl)
  moreover have "(k - 1) div k = 0"
    using assms by (simp add: div_pos_pos_trivial)
  moreover have "y div k = q"
    unfolding q using assms by simp
  ultimately show ?thesis using True by simp
next
  case False
  define r where "r = y mod k"
  define q where "q = y div k"
  have "0 \<le> y mod k" "y mod k < k"
    using assms by simp_all
  with False have r: "0 < r" "r < k"
    unfolding r_def by simp_all
  have "y = k * q + r"
    unfolding q_def r_def by simp
  then have "y - 1 = k * q + (r - 1)" by simp
  then have "(y - 1) div k = q + (r - 1) div k"
    using assms by (metis div_mult_self4 less_irrefl)
  moreover have "(r - 1) div k = 0"
    using r by (simp add: div_pos_pos_trivial)
  ultimately show ?thesis using False q_def by simp
qed

lemma days_before_year_step:
  "days_before_year (y + 1) = days_before_year y + 365 + (if is_leap y then 1 else 0)"
proof -
  define a4 a100 a400 where "a4 = y div 4" and "a100 = y div 100" and "a400 = y div 400"
  define p4 p100 p400 where "p4 = (y - 1) div 4" and "p100 = (y - 1) div 100"
    and "p400 = (y - 1) div 400"
  define i4 i100 i400 :: int where "i4 = (if y mod 4 = 0 then 1 else 0)"
    and "i100 = (if y mod 100 = 0 then 1 else 0)" and "i400 = (if y mod 400 = 0 then 1 else 0)"
  define L :: int where "L = (if is_leap y then 1 else 0)"
  have e4: "a4 = p4 + i4"
    unfolding a4_def p4_def i4_def by (rule div_step) simp
  have e100: "a100 = p100 + i100"
    unfolding a100_def p100_def i100_def by (rule div_step) simp
  have e400: "a400 = p400 + i400"
    unfolding a400_def p400_def i400_def by (rule div_step) simp
  have d1: "y mod 100 = 0" if "y mod 400 = 0"
  proof -
    from that have "400 dvd y" by (simp only: mod_eq_0_iff_dvd)
    moreover have "(100::int) dvd 400" by simp
    ultimately have "100 dvd y" using dvd_trans by blast
    then show ?thesis by (simp only: mod_eq_0_iff_dvd)
  qed
  have d2: "y mod 4 = 0" if "y mod 100 = 0"
  proof -
    from that have "100 dvd y" by (simp only: mod_eq_0_iff_dvd)
    moreover have "(4::int) dvd 100" by simp
    ultimately have "4 dvd y" using dvd_trans by blast
    then show ?thesis by (simp only: mod_eq_0_iff_dvd)
  qed
  have l: "L = i4 - i100 + i400"
  proof (cases "y mod 400 = 0")
    case True
    have h100: "y mod 100 = 0" using d1 True by blast
    have h4: "y mod 4 = 0" using d2 h100 by blast
    from True h4 have "is_leap y" unfolding is_leap_def by blast
    then show ?thesis
      unfolding L_def i4_def i100_def i400_def by (simp add: True h100 h4)
  next
    case n400: False
    show ?thesis
    proof (cases "y mod 100 = 0")
      case True
      have h4: "y mod 4 = 0" using d2 True by blast
      from True n400 have "\<not> is_leap y" unfolding is_leap_def by blast
      then show ?thesis
        unfolding L_def i4_def i100_def i400_def
        by (simp add: True n400 h4)
    next
      case n100: False
      show ?thesis
      proof (cases "y mod 4 = 0")
        case True
        with n100 have "is_leap y" unfolding is_leap_def by blast
        then show ?thesis
          unfolding L_def i4_def i100_def i400_def
          by (simp add: True n100 n400)
      next
        case False
        then have "\<not> is_leap y" unfolding is_leap_def by blast
        then show ?thesis
          unfolding L_def i4_def i100_def i400_def
          by (simp add: False n100 n400)
      qed
    qed
  qed
  have a: "days_before_year (y + 1) = y * 365 + a4 - a100 + a400"
    unfolding days_before_year_def Let_def a4_def a100_def a400_def by simp
  have b: "days_before_year y = (y - 1) * 365 + p4 - p100 + p400"
    unfolding days_before_year_def Let_def p4_def p100_def p400_def by simp
  have "days_before_year (y + 1) = days_before_year y + 365 + L"
    unfolding a b e4 e100 e400 l by (simp add: algebra_simps)
  then show ?thesis unfolding L_def .
qed

lemma days_before_year_mono:
  "y \<le> z \<Longrightarrow> days_before_year y \<le> days_before_year z"
proof (induction z rule: int_ge_induct)
  case base
  then show ?case by simp
next
  case (step i)
  have "days_before_year i \<le> days_before_year (i + 1)"
    unfolding days_before_year_step [of i] by (cases "is_leap i") simp_all
  with step show ?case by linarith
qed

lemma days_before_year_1: "days_before_year 1 = 0"
  by (simp add: days_before_year_def)

lemma days_before_year_10000: "days_before_year 10000 = 3652059"
  by (simp add: days_before_year_def)


lemma month_cases:
  "1 \<le> (m::int) \<Longrightarrow> m \<le> 12 \<Longrightarrow> m = 1 \<or> m = 2 \<or> m = 3 \<or> m = 4 \<or> m = 5 \<or> m = 6
    \<or> m = 7 \<or> m = 8 \<or> m = 9 \<or> m = 10 \<or> m = 11 \<or> m = 12"
  by presburger

lemma month_day_bound:
  assumes "1 \<le> m" "m \<le> 12" "1 \<le> d" "d \<le> days_in_month y m"
  shows "1 \<le> days_before_month y m + d
         \<and> days_before_month y m + d \<le> 365 + (if is_leap y then 1 else 0)"
  using month_cases [OF assms(1,2)] assms(3,4)
  by (elim disjE)
     (simp_all add: days_before_month_def days_in_month_def DAYS_BEFORE_MONTH_def
               split: if_splits)

lemma ymd2ord_bounds:
  assumes "1 \<le> y" "y \<le> 9999" "1 \<le> m" "m \<le> 12" "1 \<le> d" "d \<le> days_in_month y m"
  shows "1 \<le> ymd2ord y m d \<and> ymd2ord y m d \<le> 3652059"
proof -
  have lo: "0 \<le> days_before_year y"
    using days_before_year_mono [of 1 y] assms(1) by (simp add: days_before_year_1)
  have "days_before_year (y + 1) \<le> 3652059"
    using days_before_year_mono [of "y + 1" 10000] assms(2)
    by (simp add: days_before_year_10000)
  then have hi: "days_before_year y + 365 + (if is_leap y then 1 else 0) \<le> 3652059"
    by (simp only: days_before_year_step)
  from lo hi month_day_bound [OF assms(3-6)] show ?thesis
    unfolding ymd2ord_def by (cases "is_leap y") simp_all
qed

lemma mk_wall_in_range:
  assumes "mk_wall y m d H M S us = Inr w"
  shows "in_range w"
proof -
  from assms have r: "1 \<le> y" "y \<le> 9999" "1 \<le> m" "m \<le> 12" "1 \<le> d" "d \<le> days_in_month y m"
    and t: "0 \<le> H" "H \<le> 23" "0 \<le> M" "M \<le> 59" "0 \<le> S" "S \<le> 59" "0 \<le> us" "us \<le> 999999"
    and w: "w = (ymd2ord y m d - 1) * US_PER_DAY + H * US_PER_HOUR + M * US_PER_MINUTE
                + S * US_PER_SECOND + us"
    by (auto simp: mk_wall_def split: if_splits)
  define n where "n = ymd2ord y m d"
  from ymd2ord_bounds [OF r] have n: "1 \<le> n" "n \<le> 3652059"
    by (simp_all add: n_def)
  show ?thesis
    using n t unfolding w n_def [symmetric] in_range_def MAX_ORDINAL_def US_PER_DAY_def
      US_PER_HOUR_def US_PER_MINUTE_def US_PER_SECOND_def
    by simp
qed

lemma strptime_in_range: "strptime s = Inr n \<Longrightarrow> in_range n"
  unfolding strptime_def no_match_def
  by (auto split: option.splits) (blast dest: mk_wall_in_range)


section \<open>From local time to UTC and back\<close>

lemma wall_add_Inr: "wall_add w d = Inr r \<Longrightarrow> r = w + d \<and> in_range r"
  by (auto simp: wall_add_def split: if_splits)

lemma localize_probe_sound:
  assumes "localize_probe trs w delta = Inr cands" and "c \<in> set cands"
  shows "in_range (w - fst c) \<and> fst (info_at trs (w - fst c)) = fst c"
proof -
  from assms obtain loc u r where
      u: "wall_add w (- fst (info_at trs loc)) = Inr u"
    and r: "wall_add u (fst (info_at trs u)) = Inr r"
    and c: "r = w" "c = info_at trs u"
    by (auto simp: localize_probe_def split: sum.splits if_splits)
  from wall_add_Inr [OF u] wall_add_Inr [OF r] c show ?thesis
    by auto
qed

lemma possible_loc_dt_sound:
  assumes "possible_loc_dt trs w = Inr cands" and "c \<in> set cands"
  shows "in_range (w - fst c) \<and> fst (info_at trs (w - fst c)) = fst c"
  using assms
  by (auto simp: possible_loc_dt_def split: sum.splits dest: localize_probe_sound)

lemma fold_pick_mem:
  "fold (\<lambda>c best. if P c best then c else best) xs x \<in> set (x # xs)"
  by (induction xs arbitrary: x) (auto split: if_splits)

lemma choose_candidate_mem:
  assumes "cands \<noteq> []"
  shows "choose_candidate cands \<in> set cands"
proof -
  define pool where "pool = (if filter (\<lambda>c. snd c = 0) cands = [] then cands
                              else filter (\<lambda>c. snd c = 0) cands)"
  have ne: "pool \<noteq> []" and sub: "set pool \<subseteq> set cands"
    using assms by (auto simp: pool_def)
  have "choose_candidate cands
          = fold (\<lambda>c best. if fst c < fst best then c else best) (tl pool) (hd pool)"
    by (simp add: choose_candidate_def pool_def Let_def)
  also have "\<dots> \<in> set (hd pool # tl pool)"
    by (rule fold_pick_mem)
  also have "hd pool # tl pool = pool"
    using ne by simp
  finally show ?thesis using sub by blast
qed

lemma dst_localize_exists:
  assumes "possible_loc_dt trs w = Inr cands" and "cands \<noteq> []"
  shows "\<exists>off. dst_localize trs w = Inr (Aware w off) \<and> in_range (w - off)
               \<and> fst (info_at trs (w - off)) = off"
proof -
  have "dst_localize trs w = Inr (Aware w (fst (choose_candidate cands)))"
    using assms by (subst dst_localize.simps) simp
  moreover from possible_loc_dt_sound [OF assms(1) choose_candidate_mem [OF assms(2)]]
  have "in_range (w - fst (choose_candidate cands))
        \<and> fst (info_at trs (w - fst (choose_candidate cands))) = fst (choose_candidate cands)" .
  ultimately show ?thesis by blast
qed

text \<open>Whatever \<^verbatim>\<open>convert_user_time_to_utc\<close> returns is an aware datetime in UTC.\<close>

lemma convert_user_time_to_utc_is_utc:
  "convert_user_time_to_utc E now d tm tz = Inr dt \<Longrightarrow> \<exists>t. dt = Aware t 0"
  by (auto simp: convert_user_time_to_utc_def utc_now_def
           split: sum.splits if_splits pydatetime.splits elim!: astimezone.elims)

text \<open>
  Claim C5, as amended. For every date and time that \<^verbatim>\<open>strptime\<close> accepts and every
  timezone that is \<^verbatim>\<open>"UTC"\<close> or resolves to a zone in which that wall-clock reading
  exists (it is not skipped by a transition): when \<^verbatim>\<open>convert_user_time_to_utc\<close>
  returns the UTC instant \<open>u\<close>, then \<^verbatim>\<open>convert_utc_to_user_timezone\<close>, applied to
  any UTC string for \<open>u\<close> and the same timezone, returns a datetime whose wall clock is
  the original date and time.
\<close>

theorem local_to_utc_round_trip:
  assumes "strptime (date_str @ '' '' @ time_str) = Inr n"
      and "tz = ''UTC'' \<or> (\<exists>z. tzdb E tz = Some z \<and> wall_clock_exists z n)"
      and "convert_user_time_to_utc E now date_str time_str tz = Inr (Aware u 0)"
      and "fromisoformat (replace_Z utc_str) = Inr (Aware u 0)"
  shows "\<exists>off. convert_utc_to_user_timezone E now utc_str tz = Inr (Aware n off)"
proof (cases "tz = ''UTC''")
  case True
  with assms(1,3) have "u = n"
    by (simp add: convert_user_time_to_utc_def)
  with True assms(4) show ?thesis
    by (simp add: convert_utc_to_user_timezone_def)
next
  case False
  with assms(2) obtain z where z: "tzdb E tz = Some z" and ex: "wall_clock_exists z n"
    by blast
  have rn: "in_range n" using strptime_in_range [OF assms(1)] .
  note conv = assms(3) [unfolded convert_user_time_to_utc_def pytz_timezone_def]
  have "\<exists>off. astimezone E (Aware u 0) z = Inr (Aware n off)"
  proof (cases z)
    case UtcZone
    with conv False z assms(1) rn have "u = n"
      by (auto simp: wall_add_def split: if_splits)
    with UtcZone rn show ?thesis by (simp add: wall_add_def)
  next
    case (StaticTz off)
    with conv False z assms(1) have u: "u = n - off" "in_range u"
      by (auto simp: wall_add_def split: if_splits)
    with StaticTz rn show ?thesis by (simp add: wall_add_def)
  next
    case (DstTz trs)
    with ex obtain cands where p: "possible_loc_dt trs n = Inr cands" "cands \<noteq> []"
      by (auto simp: wall_clock_exists_def split: sum.splits)
    from dst_localize_exists [OF p] obtain off where
        l: "dst_localize trs n = Inr (Aware n off)" and r: "in_range (n - off)"
      and i: "fst (info_at trs (n - off)) = off"
      by blast
    from conv False z assms(1) DstTz l r have "u = n - off"
      by (auto simp: wall_add_def split: if_splits)
    with DstTz r i rn show ?thesis by (simp add: wall_add_def)
  qed
  with False z assms(4) show ?thesis
    by (auto simp: convert_utc_to_user_timezone_def pytz_timezone_def)
qed

text \<open>
  14:00 on 2025-07-24 in New York is 18:00 UTC, and 18:00 UTC is 14:00 in New York.
\<close>

theorem local_to_utc_round_trip_witness:
  "\<exists>off. convert_utc_to_user_timezone example_env example_now ''2025-07-24T18:00:00.000Z''
            ''America/New_York'' = Inr (Aware 63888962400000000 off)"
proof -
  have 1: "strptime (''2025-07-24'' @ '' '' @ ''14:00'') = Inr 63888962400000000"
    by code_simp
  have 2: "''America/New_York'' = ''UTC'' \<or> (\<exists>z. tzdb example_env ''America/New_York'' = Some z
              \<and> wall_clock_exists z 63888962400000000)"
  proof -
    have "tzdb example_env ''America/New_York'' = Some new_york" by code_simp
    moreover have "wall_clock_exists new_york 63888962400000000" by code_simp
    ultimately show ?thesis by blast
  qed
  have 3: "convert_user_time_to_utc example_env example_now ''2025-07-24'' ''14:00''
             ''America/New_York'' = Inr (Aware 63888976800000000 0)"
    by code_simp
  have 4: "fromisoformat (replace_Z ''2025-07-24T18:00:00.000Z'') = Inr (Aware 63888976800000000 0)"
    by code_simp
  from local_to_utc_round_trip [OF 1 2 3 4] show ?thesis .
qed

text \<open>
  The claim as stated fails at a wall-clock reading inside a daylight-saving gap: 02:30
  on 2025-03-09 does not exist in New York. It is converted to 07:30 UTC, and 07:30 UTC
  is 03:30 in New York.
\<close>

theorem round_trip_dst_gap:
  "strptime (''2025-03-09'' @ '' '' @ ''02:30'') = Inr 63877084200000000
   \<and> tzdb example_env ''America/New_York'' = Some new_york
   \<and> convert_user_time_to_utc example_env example_now ''2025-03-09'' ''02:30''
        ''America/New_York'' = Inr (Aware 63877102200000000 0)
   \<and> fromisoformat (replace_Z ''2025-03-09T07:30:00Z'') = Inr (Aware 63877102200000000 0)
   \<and> convert_utc_to_user_timezone example_env example_now ''2025-03-09T07:30:00Z''
        ''America/New_York'' = Inr (Aware 63877087800000000 (- 14400000000))
   \<and> strftime (Naive 63877084200000000) ''%Y-%m-%d %H:%M'' = ''2025-03-09 02:30''
   \<and> strftime (Aware 63877087800000000 (- 14400000000)) ''%Y-%m-%d %H:%M''
        = ''2025-03-09 03:30''"
  by code_simp


section \<open>The code at the inputs where it departs from the specification\<close>

text \<open>
  Claim C2. The specification fixes the output of \<^verbatim>\<open>convert_iso_to_utc_api_format\<close>
  as \<^verbatim>\<open>YYYY-MM-DDTHH:MM:SS.mmmZ\<close>, with three fractional digits. The format given to
  \<^verbatim>\<open>strftime\<close> already ends in \<^verbatim>\<open>Z\<close>, so the slice \<^verbatim>\<open>[:-3]\<close> removes that letter
  and only two of the six microsecond digits: the output has four fractional digits.
\<close>

theorem convert_iso_to_utc_api_format_four_digits:
  "convert_iso_to_utc_api_format example_env ''2025-07-24T18:00:00.000Z'' ''UTC''
     = Inr ''2025-07-24T18:00:00.0000Z''
   \<and> convert_iso_to_utc_api_format example_env ''2025-07-24T14:00:00.123456''
         ''America/New_York'' = Inr ''2025-07-24T18:00:00.1234Z''"
  by code_simp

text \<open>
  Claim C6. The specification says that \<^verbatim>\<open>convert_utc_to_user_timezone\<close> and
  \<^verbatim>\<open>convert_user_time_to_utc\<close> never raise. Both catch \<^verbatim>\<open>ValueError\<close> and
  \<^verbatim>\<open>UnknownTimeZoneError\<close> only. At the first day of year 1 the conversion of a start
  with the offset \<^verbatim>\<open>+01:00\<close> to UTC leaves the range of \<^verbatim>\<open>datetime\<close>; at the last
  minute of year 9999 \<^verbatim>\<open>localize\<close> looks one day ahead and leaves the range. In both
  cases the \<^verbatim>\<open>OverflowError\<close> leaves the function.
\<close>

theorem timezone_conversions_overflow:
  "convert_utc_to_user_timezone example_env example_now ''0001-01-01T00:00:00+01:00''
       ''America/New_York'' = Inl (OverflowError ''date value out of range'')
   \<and> convert_user_time_to_utc example_env example_now ''9999-12-31'' ''23:59''
         ''America/New_York'' = Inl (OverflowError ''date value out of range'')"
  by code_simp

text \<open>
  Claim C4. The specification says that no tool raises. \<^verbatim>\<open>create_booking\<close> renders
  the \<^verbatim>\<open>ValueError\<close> of the time conversion only; for the ISO 8601 start
  \<^verbatim>\<open>0001-01-01T00:00:00+01:00\<close> the conversion to UTC raises \<^verbatim>\<open>OverflowError\<close>,
  which leaves the tool before any request is sent.
\<close>

theorem create_booking_raises:
  "create_booking example_config example_env remote_mixed example_now example_repr
       ''0001-01-01T00:00:00+01:00'' ''Ann'' ''ann@example.com'' ''Review'' ''UTC''
     = (Inl (OverflowError ''date value out of range''), [])"
  by code_simp

end
